theory Spec2Isabelle
  imports Complex_Main "HOL-Library.Sublist"
begin

section \<open>Data model\<close>

text \<open>
  The library backend keeps four tables (books, users, loans, system settings) behind an
  ORM session. The embedding below follows \<^verbatim>\<open>app/models\<close>, \<^verbatim>\<open>app/schemas\<close>,
  \<^verbatim>\<open>app/services/library_service.py\<close> and \<^verbatim>\<open>app/services/settings_service.py\<close>.

  \<^item> A naive UTC \<^verbatim>\<open>datetime\<close> is an integer count of microseconds since the calendar's
    first midnight; \<^verbatim>\<open>.date()\<close> is the day ordinal, \<^verbatim>\<open>timedelta(days=n)\<close> is
    \<open>n\<close> days of microseconds. The calendar's upper end (year 9999) is not modelled.
  \<^item> Monetary amounts (Python floats) are exact rationals. Every constant the service
    compares against (\<^verbatim>\<open>0.0\<close>, \<^verbatim>\<open>0.5\<close>) is a dyadic fraction and so is the same number
    in both readings; \<^verbatim>\<open>0.1\<close> is read as one tenth.
  \<^item> A raised \<^verbatim>\<open>HTTPException(status_code, detail)\<close> is a value; every service function
    returns its result together with the committed database.
  \<^item> \<^verbatim>\<open>datetime.utcnow()\<close> is the parameter \<open>now\<close> of each operation.
\<close>

type_synonym datetime = int

definition us_per_day :: int where
  "us_per_day = 86400000000"

definition date :: "datetime \<Rightarrow> int" where
  "date t = t div us_per_day"

definition timedelta_days :: "int \<Rightarrow> int" where
  "timedelta_days n = n * us_per_day"

datatype LoanStatus = RESERVED | ACTIVE | RETURNED | EXPIRED | OVERDUE | CANCELLED

fun LoanStatus_value :: "LoanStatus \<Rightarrow> string" where
  "LoanStatus_value RESERVED = ''reserved''"
| "LoanStatus_value ACTIVE = ''active''"
| "LoanStatus_value RETURNED = ''returned''"
| "LoanStatus_value EXPIRED = ''expired''"
| "LoanStatus_value OVERDUE = ''overdue''"
| "LoanStatus_value CANCELLED = ''cancelled''"

datatype UserRole = ADMIN | LIBRARIAN | MEMBER

record Book =
  b_id :: int
  title :: string
  author :: string
  isbn :: string
  description :: "string option"
  total_copies :: int
  available_copies :: int
  is_available :: bool

record Loan =
  l_id :: int
  user_id :: int
  book_id :: int
  status :: LoanStatus
  reservation_date :: datetime
  pickup_deadline :: "datetime option"
  start_date :: "datetime option"
  due_date :: "datetime option"
  returned_at :: "datetime option"
  canceled_at :: "datetime option"
  fine_amount :: rat

record User =
  usr_id :: int
  username :: string
  role :: UserRole
  is_active :: bool
  is_banned :: bool

text \<open>
  The stored settings row: the service tests each column for \<^verbatim>\<open>None\<close>, so the columns are
  optional here. \<open>SystemSettings\<close> is the object \<^verbatim>\<open>get_settings\<close> hands out, after those
  tests, with every attribute set.
\<close>

record SystemSettings_row =
  pickup_window_days_col :: "int option"
  standard_loan_days_col :: "int option"
  daily_fine_amount_col :: "rat option"

record SystemSettings =
  pickup_window_days :: int
  standard_loan_days :: int
  daily_fine_amount :: rat

record database =
  books :: "Book list"
  users :: "User list"
  loans :: "Loan list"
  system_settings :: "SystemSettings_row option"

datatype error = HTTPException int string

text \<open>Request schemas of \<^verbatim>\<open>app/schemas\<close>, with their field constraints.\<close>

record BookCreate =
  c_title :: string
  c_author :: string
  c_isbn :: string
  c_description :: "string option"
  c_total_copies :: int
  c_available_copies :: "int option"

definition BookCreate_valid :: "BookCreate \<Rightarrow> bool" where
  "BookCreate_valid p =
     (1 \<le> length (c_title p) \<and> length (c_title p) \<le> 200 \<and>
      1 \<le> length (c_author p) \<and> length (c_author p) \<le> 100 \<and>
      10 \<le> length (c_isbn p) \<and> length (c_isbn p) \<le> 20 \<and>
      1 \<le> c_total_copies p \<and> c_total_copies p \<le> 1000 \<and>
      (case c_available_copies p of None \<Rightarrow> False | Some a \<Rightarrow> 0 \<le> a \<and> a \<le> 1000))"

text \<open>In \<open>BookUpdate\<close> a field is \<open>None\<close> when the request leaves it unset.\<close>

record BookUpdate =
  u_title :: "string option"
  u_author :: "string option"
  u_isbn :: "string option"
  u_description :: "string option"
  u_total_copies :: "int option"
  u_available_copies :: "int option"

definition len_between :: "nat \<Rightarrow> nat \<Rightarrow> string option \<Rightarrow> bool" where
  "len_between lo hi s = (case s of None \<Rightarrow> True | Some v \<Rightarrow> lo \<le> length v \<and> length v \<le> hi)"

definition int_between :: "int \<Rightarrow> int \<Rightarrow> int option \<Rightarrow> bool" where
  "int_between lo hi x = (case x of None \<Rightarrow> True | Some v \<Rightarrow> lo \<le> v \<and> v \<le> hi)"

definition BookUpdate_valid :: "BookUpdate \<Rightarrow> bool" where
  "BookUpdate_valid p =
     (len_between 1 200 (u_title p) \<and> len_between 1 100 (u_author p) \<and>
      len_between 10 20 (u_isbn p) \<and>
      int_between 1 1000 (u_total_copies p) \<and> int_between 0 1000 (u_available_copies p))"

text \<open>
  \<open>SettingsUpdate\<close> requires its three fields, so the dictionary that reaches
  \<^verbatim>\<open>update_settings\<close> holds all three keys.
\<close>

record SettingsUpdate =
  s_pickup_window_days :: int
  s_standard_loan_days :: int
  s_daily_fine_amount :: rat

definition SettingsUpdate_valid :: "SettingsUpdate \<Rightarrow> bool" where
  "SettingsUpdate_valid p =
     (1 \<le> s_pickup_window_days p \<and> s_pickup_window_days p \<le> 14 \<and>
      1 \<le> s_standard_loan_days p \<and> s_standard_loan_days p \<le> 120 \<and>
      0 \<le> s_daily_fine_amount p \<and> s_daily_fine_amount p \<le> 100)"

section \<open>Queries\<close>

definition get_book :: "database \<Rightarrow> int \<Rightarrow> Book option" where
  "get_book db book_id' = find (\<lambda>b. b_id b = book_id') (books db)"

definition get_loan :: "database \<Rightarrow> int \<Rightarrow> Loan option" where
  "get_loan db loan_id = find (\<lambda>l. l_id l = loan_id) (loans db)"

definition get_user :: "database \<Rightarrow> int \<Rightarrow> User option" where
  "get_user db user_id' = find (\<lambda>u. usr_id u = user_id') (users db)"

text \<open>Flushing a mutated row on commit replaces the row with the same primary key.\<close>

definition store_book :: "Book \<Rightarrow> database \<Rightarrow> database" where
  "store_book book db =
     db\<lparr>books := map (\<lambda>b. if b_id b = b_id book then book else b) (books db)\<rparr>"

definition store_loan :: "Loan \<Rightarrow> database \<Rightarrow> database" where
  "store_loan loan db =
     db\<lparr>loans := map (\<lambda>l. if l_id l = l_id loan then loan else l) (loans db)\<rparr>"

text \<open>An autoincremented primary key: one more than the largest key in the table.\<close>

definition next_id :: "int list \<Rightarrow> int" where
  "next_id ids = foldr max ids 0 + 1"

section \<open>Settings service\<close>

definition get_settings :: "database \<Rightarrow> SystemSettings \<times> database" where
  "get_settings db =
     (case system_settings db of
        Some row \<Rightarrow>
          (let pw = (case pickup_window_days_col row of None \<Rightarrow> 2 | Some d \<Rightarrow> d);
               sl = (case standard_loan_days_col row of None \<Rightarrow> 30 | Some d \<Rightarrow> d);
               df = (case daily_fine_amount_col row of
                       None \<Rightarrow> 1 / 10
                     | Some r \<Rightarrow> if r = 0 \<or> r = 1 / 2 then 1 / 10 else r);
               settings = \<lparr>pickup_window_days = pw, standard_loan_days = sl,
                           daily_fine_amount = df\<rparr>
           in (settings,
               db\<lparr>system_settings :=
                    Some \<lparr>pickup_window_days_col = Some pw, standard_loan_days_col = Some sl,
                          daily_fine_amount_col = Some df\<rparr>\<rparr>))
      | None \<Rightarrow>
          (\<lparr>pickup_window_days = 2, standard_loan_days = 30, daily_fine_amount = 1 / 10\<rparr>,
           db\<lparr>system_settings :=
                Some \<lparr>pickup_window_days_col = Some 2, standard_loan_days_col = Some 30,
                      daily_fine_amount_col = Some (1 / 10)\<rparr>\<rparr>))"

text \<open>
  The lateness rule shared by return, sweep and repricing: the difference of the two
  calendar days, with a difference of zero counted as one day.
\<close>

definition days_late :: "datetime \<Rightarrow> datetime \<Rightarrow> int" where
  "days_late now due =
     (let d = date now - date due in if d = 0 then 1 else d)"

definition recalculate_loan :: "datetime \<Rightarrow> SystemSettings \<Rightarrow> Loan \<Rightarrow> Loan" where
  "recalculate_loan now settings loan =
     (case due_date loan of
        None \<Rightarrow> loan
      | Some due \<Rightarrow>
          if (status loan = ACTIVE \<or> status loan = OVERDUE) \<and> due < now then
            (if days_late now due > 0
             then loan\<lparr>fine_amount := of_int (days_late now due) * daily_fine_amount settings,
                       status := OVERDUE\<rparr>
             else loan)
          else loan)"

definition recalculate_overdue_fines :: "datetime \<Rightarrow> database \<Rightarrow> SystemSettings \<Rightarrow> database" where
  "recalculate_overdue_fines now db settings =
     db\<lparr>loans := map (recalculate_loan now settings) (loans db)\<rparr>"

definition update_settings ::
  "datetime \<Rightarrow> database \<Rightarrow> SettingsUpdate \<Rightarrow> SystemSettings \<times> database" where
  "update_settings now db updates =
     (let (settings0, db1) = get_settings db;
          settings = settings0\<lparr>pickup_window_days := s_pickup_window_days updates,
                               standard_loan_days := s_standard_loan_days updates,
                               daily_fine_amount := s_daily_fine_amount updates\<rparr>;
          db2 = db1\<lparr>system_settings :=
                      Some \<lparr>pickup_window_days_col = Some (pickup_window_days settings),
                            standard_loan_days_col = Some (standard_loan_days settings),
                            daily_fine_amount_col = Some (daily_fine_amount settings)\<rparr>\<rparr>
      in (settings, recalculate_overdue_fines now db2 settings))"

section \<open>Library service\<close>

definition create_book :: "database \<Rightarrow> BookCreate \<Rightarrow> (error + Book) \<times> database" where
  "create_book db book_data =
     (let available0 = (case c_available_copies book_data of
                          None \<Rightarrow> c_total_copies book_data
                        | Some a \<Rightarrow> a);
          available = min available0 (c_total_copies book_data)
      in if find (\<lambda>b. isbn b = c_isbn book_data) (books db) \<noteq> None
         then (Inl (HTTPException 400 ''Book with this ISBN already exists''), db)
         else
           (let book = \<lparr>b_id = next_id (map b_id (books db)),
                        title = c_title book_data, author = c_author book_data,
                        isbn = c_isbn book_data, description = c_description book_data,
                        total_copies = c_total_copies book_data,
                        available_copies = available,
                        is_available = True\<rparr>
            in (Inr book, db\<lparr>books := books db @ [book]\<rparr>)))"

text \<open>
  \<^verbatim>\<open>model_dump(exclude_unset=True)\<close> lists the fields the request sets; \<open>set_field\<close>
  is the \<^verbatim>\<open>setattr\<close> of one of them and \<open>is_set\<close> the test \<^verbatim>\<open>"field" in update_data\<close>.
\<close>

definition set_field :: "'v option \<Rightarrow> ('v \<Rightarrow> 'r \<Rightarrow> 'r) \<Rightarrow> 'r \<Rightarrow> 'r" where
  "set_field v upd r = (case v of None \<Rightarrow> r | Some x \<Rightarrow> upd x r)"

definition is_set :: "'v option \<Rightarrow> bool" where
  "is_set v = (case v of None \<Rightarrow> False | Some x \<Rightarrow> True)"

definition update_book :: "database \<Rightarrow> int \<Rightarrow> BookUpdate \<Rightarrow> (error + Book) \<times> database" where
  "update_book db book_id' book_data =
     (case get_book db book_id' of
        None \<Rightarrow> (Inl (HTTPException 404 ''Book not found''), db)
      | Some book \<Rightarrow>
          (let book1 =
                 (set_field (u_available_copies book_data) (\<lambda>v b. b\<lparr>available_copies := v\<rparr>)
                 (set_field (u_total_copies book_data) (\<lambda>v b. b\<lparr>total_copies := v\<rparr>)
                 (set_field (u_description book_data) (\<lambda>v b. b\<lparr>description := Some v\<rparr>)
                 (set_field (u_isbn book_data) (\<lambda>v b. b\<lparr>isbn := v\<rparr>)
                 (set_field (u_author book_data) (\<lambda>v b. b\<lparr>author := v\<rparr>)
                 (set_field (u_title book_data) (\<lambda>v b. b\<lparr>title := v\<rparr>) book))))));
               book2 =
                 (if (is_set (u_total_copies book_data) \<or> is_set (u_available_copies book_data))
                     \<and> available_copies book1 > total_copies book1
                  then book1\<lparr>available_copies := total_copies book1\<rparr>
                  else book1)
           in (Inr book2, store_book book2 db)))"

text \<open>
  The hold on a copy and its release, as every loan transition writes them: the count
  changes by one and the flag is recomputed from the new count.
\<close>

definition take_copy :: "Book \<Rightarrow> Book" where
  "take_copy book =
     (let book1 = book\<lparr>available_copies := available_copies book - 1\<rparr>
      in book1\<lparr>is_available := available_copies book1 > 0\<rparr>)"

definition release_copy :: "Book \<Rightarrow> Book" where
  "release_copy book =
     (let book1 = book\<lparr>available_copies := available_copies book + 1\<rparr>
      in book1\<lparr>is_available := available_copies book1 > 0\<rparr>)"

definition release_copy_of :: "int \<Rightarrow> database \<Rightarrow> database" where
  "release_copy_of book_id' db =
     (case get_book db book_id' of
        None \<Rightarrow> db
      | Some book \<Rightarrow> store_book (release_copy book) db)"

definition recent_cancel :: "datetime \<Rightarrow> database \<Rightarrow> int \<Rightarrow> int \<Rightarrow> Loan option" where
  "recent_cancel now db user_id' book_id' =
     find (\<lambda>l. user_id l = user_id' \<and> book_id l = book_id' \<and> status l = CANCELLED \<and>
               (case canceled_at l of None \<Rightarrow> False | Some c \<Rightarrow> c > now - timedelta_days 1))
          (loans db)"

definition reserve_book ::
  "datetime \<Rightarrow> database \<Rightarrow> int \<Rightarrow> int \<Rightarrow> (error + Loan) \<times> database" where
  "reserve_book now db user_id' book_id' =
     (case get_book db book_id' of
        None \<Rightarrow> (Inl (HTTPException 404 ''Book not found''), db)
      | Some book \<Rightarrow>
          if available_copies book \<le> 0
          then (Inl (HTTPException 400 ''Book is not available for reservation''), db)
          else
            (case get_user db user_id' of
               None \<Rightarrow> (Inl (HTTPException 404 ''User not found''), db)
             | Some user \<Rightarrow>
                 if is_banned user
                 then (Inl (HTTPException 403 ''You are banned from reserving books''), db)
                 else if recent_cancel now db user_id' book_id' \<noteq> None
                 then (Inl (HTTPException 400
                         ''You must wait 24 hours before reserving this book again''), db)
                 else
                   (let (settings, db1) = get_settings db;
                        loan = \<lparr>l_id = next_id (map l_id (loans db1)),
                                user_id = user_id', book_id = book_id',
                                status = RESERVED, reservation_date = now,
                                pickup_deadline =
                                  Some (now + timedelta_days (pickup_window_days settings)),
                                start_date = None, due_date = None, returned_at = None,
                                canceled_at = None, fine_amount = 0\<rparr>;
                        db2 = store_book (take_copy book) db1
                    in (Inr loan, db2\<lparr>loans := loans db2 @ [loan]\<rparr>))))"

definition confirm_pickup :: "datetime \<Rightarrow> database \<Rightarrow> int \<Rightarrow> (error + Loan) \<times> database" where
  "confirm_pickup now db loan_id =
     (case get_loan db loan_id of
        None \<Rightarrow> (Inl (HTTPException 404 ''Loan not found''), db)
      | Some loan \<Rightarrow>
          if status loan \<noteq> RESERVED
          then (Inl (HTTPException 400 ''Only reserved loans can be picked up''), db)
          else if (case pickup_deadline loan of None \<Rightarrow> False | Some d \<Rightarrow> now > d)
          then (Inl (HTTPException 400 ''Reservation has expired''),
                release_copy_of (book_id loan) (store_loan (loan\<lparr>status := EXPIRED\<rparr>) db))
          else
            (let (settings, db1) = get_settings db;
                 loan1 = loan\<lparr>status := ACTIVE, start_date := Some now,
                              due_date :=
                                Some (now + timedelta_days (standard_loan_days settings))\<rparr>
             in (Inr loan1, store_loan loan1 db1)))"

definition assign_loan ::
  "datetime \<Rightarrow> database \<Rightarrow> int \<Rightarrow> int \<Rightarrow> (error + Loan) \<times> database" where
  "assign_loan now db user_id' book_id' =
     (case get_user db user_id' of
        None \<Rightarrow> (Inl (HTTPException 404 ''User not found''), db)
      | Some user \<Rightarrow>
          if role user \<noteq> MEMBER
          then (Inl (HTTPException 400 ''Loans can only be assigned to members''), db)
          else if is_banned user
          then (Inl (HTTPException 403 ''User is banned from reserving books''), db)
          else
            (case get_book db book_id' of
               None \<Rightarrow> (Inl (HTTPException 404 ''Book not found''), db)
             | Some book \<Rightarrow>
                 if available_copies book \<le> 0
                 then (Inl (HTTPException 400 ''Book is not available for loan''), db)
                 else
                   (let (settings, db1) = get_settings db;
                        loan = \<lparr>l_id = next_id (map l_id (loans db1)),
                                user_id = user_id', book_id = book_id',
                                status = ACTIVE, reservation_date = now,
                                pickup_deadline = None,
                                start_date = Some now,
                                due_date =
                                  Some (now + timedelta_days (standard_loan_days settings)),
                                returned_at = None, canceled_at = None, fine_amount = 0\<rparr>;
                        db2 = store_book (take_copy book) db1
                    in (Inr loan, db2\<lparr>loans := loans db2 @ [loan]\<rparr>))))"

definition return_book :: "datetime \<Rightarrow> database \<Rightarrow> int \<Rightarrow> (error + Loan) \<times> database" where
  "return_book now db loan_id =
     (case get_loan db loan_id of
        None \<Rightarrow> (Inl (HTTPException 404 ''Loan not found''), db)
      | Some loan \<Rightarrow>
          if status loan \<noteq> ACTIVE \<and> status loan \<noteq> OVERDUE
          then (Inl (HTTPException 400 ''Only active loans can be returned''), db)
          else
            (let (loan1, db1) =
                   (case due_date loan of
                      None \<Rightarrow> (loan, db)
                    | Some due \<Rightarrow>
                        if now > due then
                          (let (settings, db') = get_settings db
                           in if days_late now due > 0
                              then (loan\<lparr>fine_amount :=
                                           of_int (days_late now due)
                                           * daily_fine_amount settings\<rparr>, db')
                              else (loan, db'))
                        else (loan, db));
                 loan2 = loan1\<lparr>status := RETURNED, returned_at := Some now\<rparr>
             in (Inr loan2, release_copy_of (book_id loan2) (store_loan loan2 db1))))"

definition cancel_reservation ::
  "datetime \<Rightarrow> database \<Rightarrow> int \<Rightarrow> int \<Rightarrow> (error + Loan) \<times> database" where
  "cancel_reservation now db user_id' loan_id =
     (case get_loan db loan_id of
        None \<Rightarrow> (Inl (HTTPException 404 ''Loan not found''), db)
      | Some loan \<Rightarrow>
          if user_id loan \<noteq> user_id'
          then (Inl (HTTPException 403 ''You can only cancel your own reservations''), db)
          else if status loan \<noteq> RESERVED
          then (Inl (HTTPException 400 ''Only reserved loans can be cancelled''), db)
          else
            (let loan1 = loan\<lparr>status := CANCELLED, canceled_at := Some now\<rparr>
             in (Inr loan1, release_copy_of (book_id loan1) (store_loan loan1 db))))"

text \<open>
  The overdue sweep over a list of loaded loans: \<open>mark_overdue_loan\<close> is the loop body,
  \<open>mark_overdue\<close> the loop. The settings are fetched once, at the first loan that
  qualifies, and carried along in the loop's \<^verbatim>\<open>settings\<close> variable.
\<close>

definition mark_overdue_loan ::
  "datetime \<Rightarrow> Loan \<Rightarrow> SystemSettings option \<Rightarrow> database
     \<Rightarrow> Loan \<times> SystemSettings option \<times> database" where
  "mark_overdue_loan now loan settings db =
     (case due_date loan of
        None \<Rightarrow> (loan, settings, db)
      | Some due \<Rightarrow>
          if (status loan = ACTIVE \<or> status loan = OVERDUE) \<and> now > due then
            (let loan1 = loan\<lparr>status := OVERDUE\<rparr>;
                 (settings1, db1) = (case settings of
                                       None \<Rightarrow> get_settings db
                                     | Some s \<Rightarrow> (s, db));
                 loan2 = (if days_late now due > 0
                          then loan1\<lparr>fine_amount :=
                                       of_int (days_late now due)
                                       * daily_fine_amount settings1\<rparr>
                          else loan1)
             in (loan2, Some settings1, db1))
          else (loan, settings, db))"

fun mark_overdue ::
  "datetime \<Rightarrow> Loan list \<Rightarrow> SystemSettings option \<Rightarrow> database
     \<Rightarrow> Loan list \<times> SystemSettings option \<times> database" where
  "mark_overdue now [] settings db = ([], settings, db)"
| "mark_overdue now (loan # rest) settings db =
     (let (loan', settings1, db1) = mark_overdue_loan now loan settings db;
          (rest', settings', db') = mark_overdue now rest settings1 db1
      in (loan' # rest', settings', db'))"

section \<open>The rules as the specification words them\<close>

text \<open>
  The sweep rule of the specification: a loan in ACTIVE or OVERDUE status whose due date
  has passed becomes OVERDUE with the fine of \<open>max 1 (days between the two dates)\<close> days
  at the given rate; any other loan is left as it is.
\<close>

definition sweep_qualifies :: "datetime \<Rightarrow> Loan \<Rightarrow> bool" where
  "sweep_qualifies now loan =
     ((status loan = ACTIVE \<or> status loan = OVERDUE) \<and>
      (case due_date loan of None \<Rightarrow> False | Some due \<Rightarrow> due < now))"

definition swept :: "datetime \<Rightarrow> rat \<Rightarrow> Loan \<Rightarrow> Loan" where
  "swept now rate loan =
     (case due_date loan of
        None \<Rightarrow> loan
      | Some due \<Rightarrow>
          if (status loan = ACTIVE \<or> status loan = OVERDUE) \<and> due < now
          then loan\<lparr>status := OVERDUE,
                    fine_amount := of_int (max 1 (date now - date due)) * rate\<rparr>
          else loan)"

text \<open>An error message names a status when the status's value occurs in it.\<close>

definition names_status :: "string \<Rightarrow> LoanStatus \<Rightarrow> bool" where
  "names_status detail st = sublist (LoanStatus_value st) detail"

text \<open>The lower half of the copy-count invariant, with the catalog's bound on the total.\<close>

definition copies_bounded_below :: "database \<Rightarrow> bool" where
  "copies_bounded_below db =
     list_all (\<lambda>b. 0 \<le> available_copies b \<and> 1 \<le> total_copies b) (books db)"

section \<open>Example states\<close>

text \<open>
  The states of the service's own tests: one member, one book with a single copy, and
  the loans the lifecycle leaves behind. Times are microseconds; day \<open>n\<close> is
  \<open>timedelta_days n\<close>.
\<close>

definition member1 :: User where
  "member1 = \<lparr>usr_id = 1, username = ''memberuser'', role = MEMBER,
               is_active = True, is_banned = False\<rparr>"

definition member2 :: User where
  "member2 = \<lparr>usr_id = 2, username = ''othermember'', role = MEMBER,
               is_active = True, is_banned = False\<rparr>"

definition test_book :: BookCreate where
  "test_book = \<lparr>c_title = ''Test Book'', c_author = ''Test Author'',
                 c_isbn = ''1234567890'', c_description = Some ''A test book'',
                 c_total_copies = 1, c_available_copies = Some 1\<rparr>"

definition book1 :: "int \<Rightarrow> bool \<Rightarrow> Book" where
  "book1 available flag =
     \<lparr>b_id = 1, title = ''Test Book'', author = ''Test Author'', isbn = ''1234567890'',
      description = Some ''A test book'', total_copies = 1,
      available_copies = available, is_available = flag\<rparr>"

definition loan1 :: "LoanStatus \<Rightarrow> Loan" where
  "loan1 st =
     \<lparr>l_id = 1, user_id = 1, book_id = 1, status = st, reservation_date = 0,
      pickup_deadline = Some (timedelta_days 2), start_date = None, due_date = None,
      returned_at = None, canceled_at = None, fine_amount = 0\<rparr>"

definition default_row :: SystemSettings_row where
  "default_row = \<lparr>pickup_window_days_col = Some 2, standard_loan_days_col = Some 30,
                   daily_fine_amount_col = Some (1 / 10)\<rparr>"

definition db_start :: database where
  "db_start = \<lparr>books = [], users = [member1, member2], loans = [], system_settings = None\<rparr>"

definition db_one_book :: database where
  "db_one_book = db_start\<lparr>books := [book1 1 True]\<rparr>"

definition db_reserved :: database where
  "db_reserved = \<lparr>books = [book1 0 False], users = [member1, member2],
                   loans = [loan1 RESERVED], system_settings = Some default_row\<rparr>"

definition db_active :: database where
  "db_active = \<lparr>books = [book1 0 False], users = [member1, member2],
                 loans = [(loan1 ACTIVE)\<lparr>start_date := Some 0,
                                         due_date := Some (timedelta_days 30)\<rparr>],
                 system_settings =
                   Some (default_row\<lparr>daily_fine_amount_col := Some (3 / 4)\<rparr>)\<rparr>"

definition db_overdue :: database where
  "db_overdue = db_active\<lparr>loans := [(loan1 OVERDUE)\<lparr>start_date := Some 0,
                                         due_date := Some (timedelta_days 30),
                                         fine_amount := 9 / 4\<rparr>]\<rparr>"

definition db_cancelled :: database where
  "db_cancelled = \<lparr>books = [book1 1 True], users = [member1, member2],
                    loans = [(loan1 CANCELLED)\<lparr>canceled_at := Some (timedelta_days 5)\<rparr>],
                    system_settings = Some default_row\<rparr>"

definition db_cancelled_banned :: database where
  "db_cancelled_banned = db_cancelled\<lparr>users := [member1\<lparr>is_banned := True\<rparr>, member2]\<rparr>"

definition db_cancelled_none_left :: database where
  "db_cancelled_none_left = db_cancelled\<lparr>books := [book1 0 False]\<rparr>"

definition hold_all :: BookUpdate where
  "hold_all = \<lparr>u_title = None, u_author = None, u_isbn = None, u_description = None,
                u_total_copies = None, u_available_copies = Some 0\<rparr>"

definition restock :: BookUpdate where
  "restock = hold_all\<lparr>u_available_copies := Some 1\<rparr>"

definition free_of_charge :: SettingsUpdate where
  "free_of_charge = \<lparr>s_pickup_window_days = 2, s_standard_loan_days = 30,
                      s_daily_fine_amount = 0\<rparr>"

definition one_per_day :: SettingsUpdate where
  "one_per_day = free_of_charge\<lparr>s_daily_fine_amount := 1\<rparr>"

section \<open>Basic facts\<close>

subsection \<open>Days and dates\<close>

lemma us_per_day_pos: "0 < us_per_day"
  by (simp add: us_per_day_def)

lemma date_mono: "a \<le> b \<Longrightarrow> date a \<le> date b"
  unfolding date_def using us_per_day_pos by (simp add: zdiv_mono1)

lemma date_plus_days: "date (t + timedelta_days n) = date t + n"
  unfolding date_def timedelta_days_def using us_per_day_pos by simp

lemma days_late_max: "due < now \<Longrightarrow> days_late now due = max 1 (date now - date due)"
  using date_mono [of due now] by (auto simp: days_late_def Let_def)

lemma days_late_pos: "due < now \<Longrightarrow> 0 < days_late now due"
  by (simp add: days_late_max)

subsection \<open>Settings\<close>

lemma get_settings_tables [simp]:
  "loans (snd (get_settings db)) = loans db"
  "books (snd (get_settings db)) = books db"
  "users (snd (get_settings db)) = users db"
  by (simp_all add: get_settings_def Let_def split: option.splits)

lemma get_settings_idem:
  "get_settings (snd (get_settings db)) = (fst (get_settings db), snd (get_settings db))"
  by (auto simp: get_settings_def Let_def split: option.splits)

lemma get_settings_fst_idem:
  "fst (get_settings (snd (get_settings db))) = fst (get_settings db)"
  "snd (get_settings (snd (get_settings db))) = snd (get_settings db)"
  by (simp_all add: get_settings_idem)

lemma get_settings_coerced:
  assumes "system_settings db = Some row"
    and "daily_fine_amount_col row = None \<or> daily_fine_amount_col row = Some 0 \<or>
         daily_fine_amount_col row = Some (1 / 2)"
  shows "daily_fine_amount (fst (get_settings db)) = 1 / 10"
    and "\<exists>row'. system_settings (snd (get_settings db)) = Some row' \<and>
           daily_fine_amount_col row' = Some (1 / 10)"
  using assms by (auto simp: get_settings_def Let_def)

lemma get_settings_stored:
  "system_settings (snd (get_settings db)) =
     Some \<lparr>pickup_window_days_col = Some (pickup_window_days (fst (get_settings db))),
           standard_loan_days_col = Some (standard_loan_days (fst (get_settings db))),
           daily_fine_amount_col = Some (daily_fine_amount (fst (get_settings db)))\<rparr>"
  by (simp add: get_settings_def Let_def split: option.splits)

lemma system_settings_frame [simp]:
  "system_settings (store_loan l db) = system_settings db"
  "system_settings (release_copy_of i db) = system_settings db"
  by (simp_all add: store_loan_def release_copy_of_def store_book_def split: option.splits)

subsection \<open>Rows and primary keys\<close>

lemma find_key: "find (\<lambda>x. k x = i) xs = Some y \<Longrightarrow> k y = i"
  by (induction xs) (auto split: if_splits)

lemma find_replace:
  "find (\<lambda>x. k x = i) xs = Some y \<Longrightarrow> k z = i \<Longrightarrow>
   find (\<lambda>x. k x = i) (map (\<lambda>x. if k x = k z then z else x) xs) = Some z"
  by (induction xs) (auto split: if_splits)

lemma foldr_max_ge: "x \<in> set ids \<Longrightarrow> x \<le> foldr max ids (0::int)"
  by (induction ids) auto

lemma next_id_fresh: "find (\<lambda>x. k x = next_id (map k xs)) xs = None"
proof -
  have "\<forall>x\<in>set xs. k x < next_id (map k xs)"
    using foldr_max_ge [of _ "map k xs"] by (fastforce simp: next_id_def)
  then show ?thesis by (auto simp: find_None_iff)
qed

lemma find_map_keep:
  "(\<And>x. k (f x) = k x) \<Longrightarrow>
   find (\<lambda>x. k x = i) (map f xs) = map_option f (find (\<lambda>x. k x = i) xs)"
  by (induction xs) auto

lemma get_loan_store_loan:
  "get_loan db i = Some l \<Longrightarrow> l_id l' = i \<Longrightarrow> get_loan (store_loan l' db) i = Some l'"
  using find_replace [of l_id i "loans db" l l'] by (simp add: get_loan_def store_loan_def)

lemma get_loan_release [simp]: "get_loan (release_copy_of b db) i = get_loan db i"
  by (simp add: get_loan_def release_copy_of_def store_book_def split: option.splits)

lemma get_loan_get_settings [simp]: "get_loan (snd (get_settings db)) i = get_loan db i"
  by (simp add: get_loan_def)

lemma get_loan_id: "get_loan db i = Some l \<Longrightarrow> l_id l = i"
  unfolding get_loan_def by (rule find_key)

lemma find_snoc_fresh:
  "find P xs = None \<Longrightarrow> P y \<Longrightarrow> find P (xs @ [y]) = Some y"
  by (induction xs) (auto split: if_splits)

lemma get_book_id: "get_book db i = Some b \<Longrightarrow> b_id b = i"
  unfolding get_book_def by (rule find_key)

lemma get_book_store_book:
  "get_book db i = Some b \<Longrightarrow> b_id b' = i \<Longrightarrow> get_book (store_book b' db) i = Some b'"
  using find_replace [of b_id i "books db" b b'] by (simp add: get_book_def store_book_def)

lemma get_book_frame [simp]:
  "get_book (store_loan l db) i = get_book db i"
  "get_book (snd (get_settings db)) i = get_book db i"
  "get_book (db\<lparr>loans := ls\<rparr>) i = get_book db i"
  by (simp_all add: get_book_def store_loan_def)

lemma get_loan_store_book [simp]: "get_loan (store_book b db) i = get_loan db i"
  by (simp add: get_loan_def store_book_def)

lemma loans_store_book [simp]: "loans (store_book b db) = loans db"
  by (simp add: store_book_def)

lemma copy_id [simp]: "b_id (take_copy b) = b_id b" "b_id (release_copy b) = b_id b"
  by (simp_all add: take_copy_def release_copy_def Let_def)

lemma copy_counts [simp]:
  "available_copies (take_copy b) = available_copies b - 1"
  "available_copies (release_copy b) = available_copies b + 1"
  "total_copies (take_copy b) = total_copies b"
  "total_copies (release_copy b) = total_copies b"
  "is_available (take_copy b) = (available_copies b - 1 > 0)"
  "is_available (release_copy b) = (available_copies b + 1 > 0)"
  by (simp_all add: take_copy_def release_copy_def Let_def)

lemma get_book_release:
  "get_book db i = Some b \<Longrightarrow> get_book (release_copy_of i db) i = Some (release_copy b)"
  by (simp add: release_copy_of_def get_book_store_book get_book_id)

subsection \<open>The operations, path by path\<close>

lemma reserve_book_ok:
  assumes "get_book db bid = Some book" and "0 < available_copies book"
    and "get_user db uid = Some user" and "\<not> is_banned user"
    and "recent_cancel now db uid bid = None"
  shows "reserve_book now db uid bid =
     (Inr \<lparr>l_id = next_id (map l_id (loans db)), user_id = uid, book_id = bid,
           status = RESERVED, reservation_date = now,
           pickup_deadline =
             Some (now + timedelta_days (pickup_window_days (fst (get_settings db)))),
           start_date = None, due_date = None, returned_at = None,
           canceled_at = None, fine_amount = 0\<rparr>,
      (store_book (take_copy book) (snd (get_settings db)))
        \<lparr>loans := loans db @
           [\<lparr>l_id = next_id (map l_id (loans db)), user_id = uid, book_id = bid,
             status = RESERVED, reservation_date = now,
             pickup_deadline =
               Some (now + timedelta_days (pickup_window_days (fst (get_settings db)))),
             start_date = None, due_date = None, returned_at = None,
             canceled_at = None, fine_amount = 0\<rparr>]\<rparr>)"
  using assms by (simp add: reserve_book_def Let_def case_prod_unfold)

lemma get_loan_snoc:
  "l_id l = next_id (map l_id (loans db)) \<Longrightarrow>
   get_loan (db'\<lparr>loans := loans db @ [l]\<rparr>) (l_id l) = Some l"
  using next_id_fresh [of l_id "loans db"] by (simp add: get_loan_def find_snoc_fresh)

lemma confirm_pickup_ok:
  assumes "get_loan db i = Some loan" and "status loan = RESERVED"
    and "pickup_deadline loan = Some d" and "now \<le> d"
  shows "confirm_pickup now db i =
     (Inr (loan\<lparr>status := ACTIVE, start_date := Some now,
                due_date := Some (now + timedelta_days (standard_loan_days (fst (get_settings db))))\<rparr>),
      store_loan (loan\<lparr>status := ACTIVE, start_date := Some now,
                due_date := Some (now + timedelta_days (standard_loan_days (fst (get_settings db))))\<rparr>)
        (snd (get_settings db)))"
  using assms by (simp add: confirm_pickup_def Let_def case_prod_unfold)

lemma confirm_pickup_expired:
  assumes "get_loan db i = Some loan" and "status loan = RESERVED"
    and "pickup_deadline loan = Some d" and "d < now"
  shows "confirm_pickup now db i =
     (Inl (HTTPException 400 ''Reservation has expired''),
      release_copy_of (book_id loan) (store_loan (loan\<lparr>status := EXPIRED\<rparr>) db))"
  using assms by (simp add: confirm_pickup_def)

lemma reserve_book_Inr:
  assumes "reserve_book now db uid bid = (Inr loan, db')"
  shows "\<exists>book user. get_book db bid = Some book \<and> 0 < available_copies book \<and>
           get_user db uid = Some user \<and> \<not> is_banned user \<and>
           recent_cancel now db uid bid = None"
  using assms
  by (auto simp: reserve_book_def split: option.splits if_splits)

lemma get_book_reserved:
  assumes "reserve_book now db uid bid = (Inr loan, db')" and "get_book db bid = Some book"
  shows "get_book db' bid = Some (take_copy book) \<and> get_loan db' (l_id loan) = Some loan \<and>
         book_id loan = bid \<and> status loan = RESERVED \<and> fine_amount loan = 0 \<and>
         pickup_deadline loan =
           Some (now + timedelta_days (pickup_window_days (fst (get_settings db))))"
proof -
  from reserve_book_Inr [OF assms(1)] assms(2) obtain user where
    g: "0 < available_copies book" "get_user db uid = Some user" "\<not> is_banned user"
       "recent_cancel now db uid bid = None"
    by auto
  note r = reserve_book_ok [OF assms(2) g]
  from r assms(1) have
    l: "loan = \<lparr>l_id = next_id (map l_id (loans db)), user_id = uid, book_id = bid,
           status = RESERVED, reservation_date = now,
           pickup_deadline =
             Some (now + timedelta_days (pickup_window_days (fst (get_settings db)))),
           start_date = None, due_date = None, returned_at = None,
           canceled_at = None, fine_amount = 0\<rparr>"
    and d: "db' = (store_book (take_copy book) (snd (get_settings db)))\<lparr>loans := loans db @ [loan]\<rparr>"
    by simp_all
  have id: "l_id loan = next_id (map l_id (loans db))"
    by (simp add: l)
  have "get_book db' bid = Some (take_copy book)"
    using assms(2) by (simp add: d get_book_store_book get_book_id)
  moreover have "get_loan db' (l_id loan) = Some loan"
    unfolding d using id by (rule get_loan_snoc)
  ultimately show ?thesis by (simp add: l)
qed

lemma return_book_late:
  assumes "get_loan db i = Some loan" and "status loan = ACTIVE \<or> status loan = OVERDUE"
    and "due_date loan = Some due" and "due < now"
  shows "return_book now db i =
     (Inr (loan\<lparr>fine_amount := of_int (days_late now due) * daily_fine_amount (fst (get_settings db)),
                status := RETURNED, returned_at := Some now\<rparr>),
      release_copy_of (book_id loan)
        (store_loan (loan\<lparr>fine_amount := of_int (days_late now due) * daily_fine_amount (fst (get_settings db)),
                status := RETURNED, returned_at := Some now\<rparr>) (snd (get_settings db))))"
  using assms days_late_pos [of due now]
  by (auto simp: return_book_def Let_def split: prod.splits)

lemma return_book_on_time:
  assumes "get_loan db i = Some loan" and "status loan = ACTIVE \<or> status loan = OVERDUE"
    and "due_date loan = Some due" and "now \<le> due"
  shows "return_book now db i =
     (Inr (loan\<lparr>status := RETURNED, returned_at := Some now\<rparr>),
      release_copy_of (book_id loan)
        (store_loan (loan\<lparr>status := RETURNED, returned_at := Some now\<rparr>) db))"
  using assms
  by (auto simp: return_book_def Let_def split: prod.splits)

lemma recent_cancel_Some:
  assumes "l \<in> set (loans db)" and "user_id l = uid" and "book_id l = bid"
    and "status l = CANCELLED" and "canceled_at l = Some c" and "now - timedelta_days 1 < c"
  shows "recent_cancel now db uid bid \<noteq> None"
  using assms unfolding recent_cancel_def find_None_iff by force

lemma recent_cancel_None:
  assumes "\<forall>l c. l \<in> set (loans db) \<and> user_id l = uid \<and> book_id l = bid \<and>
             status l = CANCELLED \<and> canceled_at l = Some c \<longrightarrow> c \<le> now - timedelta_days 1"
  shows "recent_cancel now db uid bid = None"
  using assms unfolding recent_cancel_def find_None_iff
  by (fastforce split: option.splits)

lemma reserve_book_blocked:
  assumes "recent_cancel now db uid bid \<noteq> None"
  shows "\<exists>e. reserve_book now db uid bid = (Inl e, db)"
  using assms by (auto simp: reserve_book_def split: option.splits)

lemma reserve_book_wait:
  assumes "get_book db bid = Some book" and "0 < available_copies book"
    and "get_user db uid = Some user" and "\<not> is_banned user"
    and "recent_cancel now db uid bid \<noteq> None"
  shows "reserve_book now db uid bid =
     (Inl (HTTPException 400 ''You must wait 24 hours before reserving this book again''), db)"
  using assms by (auto simp: reserve_book_def)

lemma cancel_reservation_ok:
  assumes "get_loan db i = Some loan" and "user_id loan = uid" and "status loan = RESERVED"
  shows "cancel_reservation now db uid i =
     (Inr (loan\<lparr>status := CANCELLED, canceled_at := Some now\<rparr>),
      release_copy_of (book_id loan) (store_loan (loan\<lparr>status := CANCELLED, canceled_at := Some now\<rparr>) db))"
  using assms by (simp add: cancel_reservation_def Let_def)

subsection \<open>The sweep and the repricing pass\<close>

lemma swept_unqualified: "\<not> sweep_qualifies now loan \<Longrightarrow> swept now rate loan = loan"
  by (auto simp: sweep_qualifies_def swept_def split: option.splits)

lemma swept_qualifies [simp]: "sweep_qualifies now (swept now rate loan) = sweep_qualifies now loan"
  by (auto simp: sweep_qualifies_def swept_def split: option.splits)

lemma swept_idem [simp]: "swept now rate (swept now rate loan) = swept now rate loan"
  by (auto simp: swept_def split: option.splits)

lemma mark_overdue_loan_skip:
  "\<not> sweep_qualifies now loan \<Longrightarrow> mark_overdue_loan now loan sopt db = (loan, sopt, db)"
  by (auto simp: mark_overdue_loan_def sweep_qualifies_def split: option.splits)

lemma mark_overdue_loan_first:
  "sweep_qualifies now loan \<Longrightarrow>
   mark_overdue_loan now loan None db =
     (swept now (daily_fine_amount (fst (get_settings db))) loan,
      Some (fst (get_settings db)), snd (get_settings db))"
  by (auto simp: mark_overdue_loan_def sweep_qualifies_def swept_def Let_def case_prod_unfold
        days_late_max days_late_pos split: option.splits)

lemma mark_overdue_loan_next:
  "sweep_qualifies now loan \<Longrightarrow>
   mark_overdue_loan now loan (Some s) db = (swept now (daily_fine_amount s) loan, Some s, db)"
  by (auto simp: mark_overdue_loan_def sweep_qualifies_def swept_def Let_def
        days_late_max days_late_pos split: option.splits)

lemma mark_overdue_carried:
  "mark_overdue now ls (Some s) db = (map (swept now (daily_fine_amount s)) ls, Some s, db)"
proof (induction ls)
  case Nil
  show ?case by simp
next
  case (Cons loan rest)
  show ?case
  proof (cases "sweep_qualifies now loan")
    case True
    then show ?thesis using Cons by (simp add: mark_overdue_loan_next)
  next
    case False
    then show ?thesis using Cons by (simp add: mark_overdue_loan_skip swept_unqualified)
  qed
qed

lemma mark_overdue_fresh:
  "mark_overdue now ls None db =
     (map (swept now (daily_fine_amount (fst (get_settings db)))) ls,
      if list_ex (sweep_qualifies now) ls then Some (fst (get_settings db)) else None,
      if list_ex (sweep_qualifies now) ls then snd (get_settings db) else db)"
proof (induction ls)
  case Nil
  show ?case by simp
next
  case (Cons loan rest)
  show ?case
  proof (cases "sweep_qualifies now loan")
    case True
    then show ?thesis
      by (simp add: mark_overdue_loan_first mark_overdue_carried)
  next
    case False
    then show ?thesis using Cons by (simp add: mark_overdue_loan_skip swept_unqualified)
  qed
qed

lemma list_ex_swept [simp]:
  "list_ex (sweep_qualifies now) (map (swept now rate) ls) = list_ex (sweep_qualifies now) ls"
  by (induction ls) auto

lemma recalculate_loan_swept: "recalculate_loan now s loan = swept now (daily_fine_amount s) loan"
  by (auto simp: recalculate_loan_def swept_def days_late_max days_late_pos split: option.splits)

lemma l_id_swept [simp]: "l_id (swept now rate loan) = l_id loan"
  by (simp add: swept_def split: option.splits)

lemma update_settings_eq:
  "update_settings now db u =
     (\<lparr>pickup_window_days = s_pickup_window_days u, standard_loan_days = s_standard_loan_days u,
       daily_fine_amount = s_daily_fine_amount u\<rparr>,
      (snd (get_settings db))
        \<lparr>system_settings :=
           Some \<lparr>pickup_window_days_col = Some (s_pickup_window_days u),
                 standard_loan_days_col = Some (s_standard_loan_days u),
                 daily_fine_amount_col = Some (s_daily_fine_amount u)\<rparr>,
         loans := map (swept now (s_daily_fine_amount u)) (loans db)\<rparr>)"
  by (simp add: update_settings_def Let_def case_prod_unfold recalculate_overdue_fines_def
        recalculate_loan_swept cong: map_cong)

lemma swept_late:
  "(status loan = ACTIVE \<or> status loan = OVERDUE) \<Longrightarrow> due_date loan = Some due \<Longrightarrow> due < now \<Longrightarrow>
   swept now rate loan = loan\<lparr>status := OVERDUE, fine_amount := of_int (days_late now due) * rate\<rparr>"
  by (simp add: swept_def days_late_max)

lemma update_settings_stored:
  "system_settings (snd (update_settings now db u)) =
     Some \<lparr>pickup_window_days_col = Some (s_pickup_window_days u),
           standard_loan_days_col = Some (s_standard_loan_days u),
           daily_fine_amount_col = Some (s_daily_fine_amount u)\<rparr>"
  by (simp add: update_settings_eq)

subsection \<open>Copy counts never go below zero\<close>

lemma bounded_store_book:
  "copies_bounded_below db \<Longrightarrow> 0 \<le> available_copies b \<Longrightarrow> 1 \<le> total_copies b \<Longrightarrow>
   copies_bounded_below (store_book b db)"
  by (auto simp: copies_bounded_below_def store_book_def list_all_iff)

lemma bounded_get_book:
  "copies_bounded_below db \<Longrightarrow> get_book db i = Some b \<Longrightarrow>
   0 \<le> available_copies b \<and> 1 \<le> total_copies b"
  by (auto simp: copies_bounded_below_def get_book_def list_all_iff find_Some_iff)

lemma bounded_frame [simp]:
  "copies_bounded_below (store_loan l db) = copies_bounded_below db"
  "copies_bounded_below (snd (get_settings db)) = copies_bounded_below db"
  "copies_bounded_below (db\<lparr>loans := ls\<rparr>) = copies_bounded_below db"
  by (simp_all add: copies_bounded_below_def store_loan_def)

lemma bounded_release:
  "copies_bounded_below db \<Longrightarrow> copies_bounded_below (release_copy_of i db)"
  using bounded_get_book [of db i]
  by (auto simp: release_copy_of_def intro!: bounded_store_book split: option.splits)

lemma bounded_create_book:
  "copies_bounded_below db \<Longrightarrow> BookCreate_valid p \<Longrightarrow>
   copies_bounded_below (snd (create_book db p))"
  by (auto simp: create_book_def copies_bounded_below_def BookCreate_valid_def Let_def
        split: option.splits)

lemma bounded_update_book:
  "copies_bounded_below db \<Longrightarrow> BookUpdate_valid p \<Longrightarrow>
   copies_bounded_below (snd (update_book db i p))"
  using bounded_get_book [of db i]
  by (auto simp: update_book_def BookUpdate_valid_def int_between_def set_field_def Let_def
        intro!: bounded_store_book split: option.splits)

lemma bounded_reserve_book:
  "copies_bounded_below db \<Longrightarrow> copies_bounded_below (snd (reserve_book now db uid bid))"
  using bounded_get_book [of db bid]
  by (auto simp: reserve_book_def Let_def case_prod_unfold
        intro!: bounded_store_book split: option.splits)

lemma bounded_assign_loan:
  "copies_bounded_below db \<Longrightarrow> copies_bounded_below (snd (assign_loan now db uid bid))"
  using bounded_get_book [of db bid]
  by (auto simp: assign_loan_def Let_def case_prod_unfold
        intro!: bounded_store_book split: option.splits)

lemma bounded_confirm_pickup:
  "copies_bounded_below db \<Longrightarrow> copies_bounded_below (snd (confirm_pickup now db i))"
  by (auto simp: confirm_pickup_def Let_def case_prod_unfold
        intro!: bounded_release split: option.splits)

lemma bounded_return_book:
  "copies_bounded_below db \<Longrightarrow> copies_bounded_below (snd (return_book now db i))"
  by (auto simp: return_book_def Let_def case_prod_unfold
        intro!: bounded_release split: option.splits)

lemma bounded_cancel_reservation:
  "copies_bounded_below db \<Longrightarrow> copies_bounded_below (snd (cancel_reservation now db uid i))"
  by (auto simp: cancel_reservation_def Let_def
        intro!: bounded_release split: option.splits)

section \<open>Evaluating the operations on the example states\<close>

lemmas example_defs =
  member1_def member2_def test_book_def book1_def loan1_def default_row_def db_start_def
  db_one_book_def db_reserved_def db_active_def db_overdue_def db_cancelled_def
  db_cancelled_banned_def db_cancelled_none_left_def hold_all_def restock_def
  free_of_charge_def one_per_day_def

lemmas run_defs =
  create_book_def update_book_def reserve_book_def confirm_pickup_def return_book_def
  cancel_reservation_def update_settings_def get_settings_def get_book_def get_loan_def
  get_user_def store_book_def store_loan_def release_copy_of_def take_copy_def
  release_copy_def recent_cancel_def next_id_def recalculate_overdue_fines_def
  recalculate_loan_def mark_overdue_loan_def days_late_def date_def timedelta_days_def
  us_per_day_def set_field_def is_set_def Let_def

lemma reserve_first_copy:
  "reserve_book 0 db_one_book 1 1 = (Inr (loan1 RESERVED), db_reserved)"
  by (simp add: run_defs example_defs)

section \<open>The copy-count invariant (C1)\<close>

text \<open>
  C1. The claim: after every core operation, \<open>0 \<le> available_copies \<le> total_copies\<close> for
  every book, in every reachable state. The service clamps the count when a book is
  created or updated, but a release (cancel, expiry, return) adds one with no upper
  check. From an empty catalog: create a one-copy book, reserve it, let staff set
  \<open>available_copies\<close> back to 1 while the reservation is still held, then cancel the
  reservation. Every step succeeds and the book ends with 2 available copies of 1.
\<close>

theorem copies_exceed_total_after_update:
  "create_book db_start test_book = (Inr (book1 1 True), db_one_book) \<and>
   reserve_book 0 db_one_book 1 1 = (Inr (loan1 RESERVED), db_reserved) \<and>
   BookUpdate_valid restock \<and>
   update_book db_reserved 1 restock =
     (Inr (book1 1 False), db_reserved\<lparr>books := [book1 1 False]\<rparr>) \<and>
   map (\<lambda>b. (available_copies b, total_copies b))
     (books (snd (cancel_reservation (timedelta_days 1)
                    (db_reserved\<lparr>books := [book1 1 False]\<rparr>) 1 1))) = [(2, 1)]"
  by (simp add: run_defs example_defs BookUpdate_valid_def len_between_def int_between_def)

text \<open>
  The lower half of the inequality does hold: every core operation, given a request
  its schema admits, keeps \<open>0 \<le> available_copies\<close> and \<open>1 \<le> total_copies\<close> for every
  book.
\<close>

theorem copies_never_negative:
  assumes "copies_bounded_below db"
  shows "(BookCreate_valid c \<longrightarrow> copies_bounded_below (snd (create_book db c))) \<and>
     (BookUpdate_valid u \<longrightarrow> copies_bounded_below (snd (update_book db i u))) \<and>
     copies_bounded_below (snd (reserve_book now db uid i)) \<and>
     copies_bounded_below (snd (assign_loan now db uid i)) \<and>
     copies_bounded_below (snd (confirm_pickup now db i)) \<and>
     copies_bounded_below (snd (return_book now db i)) \<and>
     copies_bounded_below (snd (cancel_reservation now db uid i))"
  using assms
  by (simp add: bounded_create_book bounded_update_book bounded_reserve_book
        bounded_assign_loan bounded_confirm_pickup bounded_return_book
        bounded_cancel_reservation)

theorem copies_never_negative_witness:
  "copies_bounded_below db_reserved \<and> BookUpdate_valid restock \<and>
   copies_bounded_below (snd (update_book db_reserved 1 restock)) \<and>
   copies_bounded_below (snd (cancel_reservation (timedelta_days 1) db_reserved 1 1))"
proof -
  have b: "copies_bounded_below db_reserved"
    by (simp add: copies_bounded_below_def example_defs)
  have v: "BookUpdate_valid restock"
    by (simp add: BookUpdate_valid_def len_between_def int_between_def example_defs)
  from copies_never_negative [OF b, of test_book restock 1 "timedelta_days 1" 1] b v
  show ?thesis by simp
qed

section \<open>Fines on return (C2)\<close>

text \<open>
  C2. A loan returned after its due date is fined \<open>max 1 (date now - date due)\<close> days at
  the daily rate the settings provider hands out, which is the rate the settings row
  holds when the call is over; the loan is stored as RETURNED with that fine. Lateness
  within the due day counts as one day, and ten days at the rate 3/4 give exactly 15/2.
\<close>

theorem return_book_fine:
  assumes "get_loan db loan_id = Some loan"
    and "status loan = ACTIVE \<or> status loan = OVERDUE"
    and "due_date loan = Some due" and "due < now"
  shows "\<exists>loan' db'.
     return_book now db loan_id = (Inr loan', db') \<and>
     get_loan db' loan_id = Some loan' \<and>
     status loan' = RETURNED \<and>
     (\<exists>row. system_settings db' = Some row \<and>
        daily_fine_amount_col row = Some (daily_fine_amount (fst (get_settings db)))) \<and>
     days_late now due = max 1 (date now - date due) \<and>
     fine_amount loan' = of_int (max 1 (date now - date due)) * daily_fine_amount (fst (get_settings db)) \<and>
     (date now = date due \<longrightarrow> fine_amount loan' = 1 * daily_fine_amount (fst (get_settings db))) \<and>
     (now = due + timedelta_days 10 \<and> daily_fine_amount (fst (get_settings db)) = 3 / 4
        \<longrightarrow> fine_amount loan' = 15 / 2)"
proof -
  let ?rate = "daily_fine_amount (fst (get_settings db))"
  let ?loan' = "loan\<lparr>fine_amount := of_int (days_late now due) * ?rate,
                      status := RETURNED, returned_at := Some now\<rparr>"
  let ?db' = "release_copy_of (book_id loan) (store_loan ?loan' (snd (get_settings db)))"
  have run: "return_book now db loan_id = (Inr ?loan', ?db')"
    using assms by (rule return_book_late)
  have id: "l_id ?loan' = loan_id"
    using assms(1) by (simp add: get_loan_id)
  have stored: "get_loan ?db' loan_id = Some ?loan'"
    using assms(1) id by (simp add: get_loan_store_loan)
  have rate: "\<exists>row. system_settings ?db' = Some row \<and> daily_fine_amount_col row = Some ?rate"
    by (simp add: get_settings_stored)
  have late: "days_late now due = max 1 (date now - date due)"
    using assms(4) by (rule days_late_max)
  have ten: "now = due + timedelta_days 10 \<Longrightarrow> max 1 (date now - date due) = 10"
    by (simp add: date_plus_days)
  show ?thesis
    using run stored rate late ten by (intro exI [of _ ?loan'] exI [of _ ?db']) auto
qed

theorem return_book_fine_witness:
  "fine_amount (projr (fst (return_book (timedelta_days 40) db_active 1))) = 15 / 2 \<and>
   fine_amount (projr (fst (return_book (timedelta_days 30 + 1) db_active 1))) = 3 / 4"
proof -
  let ?loan = "hd (loans db_active)"
  have l: "get_loan db_active 1 = Some ?loan"
    by (simp add: get_loan_def example_defs)
  have s: "status ?loan = ACTIVE \<or> status ?loan = OVERDUE"
    by (simp add: example_defs)
  have d: "due_date ?loan = Some (timedelta_days 30)"
    by (simp add: example_defs)
  have r: "daily_fine_amount (fst (get_settings db_active)) = 3 / 4"
    by (simp add: get_settings_def example_defs Let_def)
  have t1: "timedelta_days 30 < timedelta_days 40"
    "timedelta_days 40 = timedelta_days 30 + timedelta_days 10"
    by (simp_all add: timedelta_days_def us_per_day_def)
  have t2: "timedelta_days 30 < timedelta_days 30 + 1"
    "date (timedelta_days 30 + 1) = date (timedelta_days 30)"
    by (simp_all add: date_def timedelta_days_def us_per_day_def)
  have a: "fine_amount (projr (fst (return_book (timedelta_days 40) db_active 1))) = 15 / 2"
    using return_book_fine [OF l s d t1(1)] r t1(2) by auto
  have b: "fine_amount (projr (fst (return_book (timedelta_days 30 + 1) db_active 1))) = 3 / 4"
    using return_book_fine [OF l s d t2(1)] r t2(2) by auto
  show ?thesis using a b by simp
qed

section \<open>Pickup after the deadline (C3)\<close>

text \<open>
  C3. Confirming the pickup of a RESERVED loan after its pickup deadline raises the
  error ``Reservation has expired'' and, in the same call, stores the loan as EXPIRED
  and gives the held copy back: the book's \<open>available_copies\<close> grows by one and
  \<open>is_available\<close> is recomputed. When the loan is the one a reservation has just
  created, the count is back at its value before the reservation.
\<close>

theorem confirm_pickup_expired_releases:
  assumes "get_loan db loan_id = Some loan" and "status loan = RESERVED"
    and "pickup_deadline loan = Some d" and "d < now"
    and "get_book db (book_id loan) = Some book"
  shows "\<exists>db'.
     confirm_pickup now db loan_id = (Inl (HTTPException 400 ''Reservation has expired''), db') \<and>
     get_loan db' loan_id = Some (loan\<lparr>status := EXPIRED\<rparr>) \<and>
     get_book db' (book_id loan) =
       Some (book\<lparr>available_copies := available_copies book + 1,
                  is_available := available_copies book + 1 > 0\<rparr>) \<and>
     (\<forall>t0 db0 uid book0.
        reserve_book t0 db0 uid (book_id loan) = (Inr loan, db) \<and>
        get_book db0 (book_id loan) = Some book0
        \<longrightarrow> available_copies book + 1 = available_copies book0)"
proof -
  let ?db' = "release_copy_of (book_id loan) (store_loan (loan\<lparr>status := EXPIRED\<rparr>) db)"
  have run: "confirm_pickup now db loan_id =
               (Inl (HTTPException 400 ''Reservation has expired''), ?db')"
    using assms(1-4) by (rule confirm_pickup_expired)
  have id: "l_id (loan\<lparr>status := EXPIRED\<rparr>) = loan_id"
    using assms(1) by (simp add: get_loan_id)
  have ln: "get_loan ?db' loan_id = Some (loan\<lparr>status := EXPIRED\<rparr>)"
    using assms(1) id by (simp add: get_loan_store_loan)
  have "get_book ?db' (book_id loan) = Some (release_copy book)"
    using assms(5) by (simp add: get_book_release)
  then have bk: "get_book ?db' (book_id loan) =
       Some (book\<lparr>available_copies := available_copies book + 1,
                  is_available := available_copies book + 1 > 0\<rparr>)"
    by (simp add: release_copy_def Let_def)
  have base: "available_copies book + 1 = available_copies book0"
    if "reserve_book t0 db0 uid (book_id loan) = (Inr loan, db)"
      and "get_book db0 (book_id loan) = Some book0" for t0 db0 uid book0
  proof -
    from get_book_reserved [OF that] assms(5) have "book = take_copy book0" by simp
    then show ?thesis by simp
  qed
  show ?thesis
    using run ln bk base by (intro exI [of _ ?db']) blast
qed

theorem confirm_pickup_expired_releases_witness:
  "reserve_book 0 db_one_book 1 1 = (Inr (loan1 RESERVED), db_reserved) \<and>
   get_book db_one_book 1 = Some (book1 1 True) \<and>
   (\<exists>db'. confirm_pickup (timedelta_days 3) db_reserved 1 =
            (Inl (HTTPException 400 ''Reservation has expired''), db') \<and>
          get_loan db' 1 = Some (loan1 EXPIRED) \<and>
          get_book db' 1 = Some (book1 1 True))"
proof -
  have l: "get_loan db_reserved 1 = Some (loan1 RESERVED)"
    by (simp add: get_loan_def example_defs)
  have s: "status (loan1 RESERVED) = RESERVED"
    and d: "pickup_deadline (loan1 RESERVED) = Some (timedelta_days 2)"
    and t: "timedelta_days 2 < timedelta_days 3"
    and b: "get_book db_reserved (book_id (loan1 RESERVED)) = Some (book1 0 False)"
    and b0: "get_book db_one_book 1 = Some (book1 1 True)"
    by (simp_all add: get_book_def timedelta_days_def us_per_day_def example_defs)
  have e: "(loan1 RESERVED)\<lparr>status := EXPIRED\<rparr> = loan1 EXPIRED"
    "(book1 0 False)\<lparr>available_copies := available_copies (book1 0 False) + 1,
                     is_available := available_copies (book1 0 False) + 1 > 0\<rparr> = book1 1 True"
    "book_id (loan1 RESERVED) = 1"
    by (simp_all add: example_defs)
  from confirm_pickup_expired_releases [OF l s d t b]
  show ?thesis
    using reserve_first_copy b0 unfolding e by blast
qed

section \<open>Repricing on a settings update (C4)\<close>

text \<open>
  C4. Updating the settings stores the new daily rate and, in the same call, reprices
  every loan in ACTIVE or OVERDUE status whose due date has passed: the loan becomes
  OVERDUE and its fine is the number of late days, by the rule \<open>days_late\<close> that the
  return uses (\<open>max 1\<close> of the difference of the dates), times the new rate. No other
  loan changes.
\<close>

theorem update_settings_reprices:
  assumes "update_settings now db updates = (settings, db')"
  shows "daily_fine_amount settings = s_daily_fine_amount updates \<and>
     loans db' = map (swept now (s_daily_fine_amount updates)) (loans db) \<and>
     (\<forall>i loan due.
        get_loan db i = Some loan \<and> (status loan = ACTIVE \<or> status loan = OVERDUE) \<and>
        due_date loan = Some due \<and> due < now
        \<longrightarrow> get_loan db' i =
              Some (loan\<lparr>status := OVERDUE,
                         fine_amount := of_int (days_late now due) * s_daily_fine_amount updates\<rparr>) \<and>
            days_late now due = max 1 (date now - date due)) \<and>
     (\<forall>i loan. get_loan db i = Some loan \<and> \<not> sweep_qualifies now loan
        \<longrightarrow> get_loan db' i = Some loan)"
proof -
  let ?rate = "s_daily_fine_amount updates"
  from assms have s: "daily_fine_amount settings = ?rate"
    and l: "loans db' = map (swept now ?rate) (loans db)"
    by (auto simp: update_settings_eq)
  have g: "get_loan db' i = map_option (swept now ?rate) (get_loan db i)" for i
    by (simp add: get_loan_def l find_map_keep)
  show ?thesis
    using s l by (auto simp: g swept_late days_late_max swept_unqualified)
qed

theorem update_settings_reprices_witness:
  "get_loan (snd (update_settings (timedelta_days 33) db_active one_per_day)) 1 =
     Some ((loan1 OVERDUE)\<lparr>start_date := Some 0, due_date := Some (timedelta_days 30),
                           fine_amount := 3\<rparr>)"
proof -
  let ?loan = "(loan1 ACTIVE)\<lparr>start_date := Some 0, due_date := Some (timedelta_days 30)\<rparr>"
  have run: "update_settings (timedelta_days 33) db_active one_per_day =
               (fst (update_settings (timedelta_days 33) db_active one_per_day),
                snd (update_settings (timedelta_days 33) db_active one_per_day))"
    by simp
  have h: "get_loan db_active 1 = Some ?loan \<and> (status ?loan = ACTIVE \<or> status ?loan = OVERDUE) \<and>
           due_date ?loan = Some (timedelta_days 30) \<and> timedelta_days 30 < timedelta_days 33"
    by (simp add: get_loan_def timedelta_days_def us_per_day_def example_defs)
  have v: "days_late (timedelta_days 33) (timedelta_days 30) = 3"
    "s_daily_fine_amount one_per_day = 1"
    "?loan\<lparr>status := OVERDUE, fine_amount := 3\<rparr> =
       (loan1 OVERDUE)\<lparr>start_date := Some 0, due_date := Some (timedelta_days 30),
                       fine_amount := 3\<rparr>"
    by (simp_all add: days_late_def date_def timedelta_days_def us_per_day_def example_defs)
  from update_settings_reprices [OF run] h
  have "get_loan (snd (update_settings (timedelta_days 33) db_active one_per_day)) 1 =
          Some (?loan\<lparr>status := OVERDUE,
                      fine_amount := of_int (days_late (timedelta_days 33) (timedelta_days 30))
                                     * s_daily_fine_amount one_per_day\<rparr>)"
    by blast
  then show ?thesis by (simp add: v)
qed

section \<open>The on-time lifecycle (C5)\<close>

text \<open>
  C5. For a book with an available copy and a user who exists, is not banned and has no
  cancellation of this book in the last day: the reservation succeeds; a pickup at any
  time up to the pickup deadline succeeds; a return at any time up to the due date
  succeeds and leaves the loan RETURNED with a fine of 0, and the book's
  \<open>available_copies\<close> at its value before the reservation.
\<close>

theorem reserve_pickup_return_on_time:
  assumes "get_book db0 bid = Some book0" and "0 < available_copies book0"
    and "get_user db0 uid = Some user" and "\<not> is_banned user"
    and "recent_cancel t1 db0 uid bid = None"
  shows "\<exists>loan1 db1 d.
     reserve_book t1 db0 uid bid = (Inr loan1, db1) \<and> pickup_deadline loan1 = Some d \<and>
     (\<forall>t2. t2 \<le> d \<longrightarrow>
        (\<exists>loan2 db2 due.
           confirm_pickup t2 db1 (l_id loan1) = (Inr loan2, db2) \<and> due_date loan2 = Some due \<and>
           (\<forall>t3. t3 \<le> due \<longrightarrow>
              (\<exists>loan3 db3 book3.
                 return_book t3 db2 (l_id loan1) = (Inr loan3, db3) \<and>
                 get_loan db3 (l_id loan1) = Some loan3 \<and>
                 status loan3 = RETURNED \<and> fine_amount loan3 = 0 \<and>
                 get_book db3 bid = Some book3 \<and>
                 available_copies book3 = available_copies book0))))"
proof -
  obtain loan1 db1 where r1: "reserve_book t1 db0 uid bid = (Inr loan1, db1)"
    using reserve_book_ok [OF assms] by blast
  note f1 = get_book_reserved [OF r1 assms(1)]
  let ?d = "t1 + timedelta_days (pickup_window_days (fst (get_settings db0)))"
  have step2: "\<exists>loan2 db2 due.
           confirm_pickup t2 db1 (l_id loan1) = (Inr loan2, db2) \<and> due_date loan2 = Some due \<and>
           (\<forall>t3. t3 \<le> due \<longrightarrow>
              (\<exists>loan3 db3 book3.
                 return_book t3 db2 (l_id loan1) = (Inr loan3, db3) \<and>
                 get_loan db3 (l_id loan1) = Some loan3 \<and>
                 status loan3 = RETURNED \<and> fine_amount loan3 = 0 \<and>
                 get_book db3 bid = Some book3 \<and>
                 available_copies book3 = available_copies book0))"
    if t2: "t2 \<le> ?d" for t2
  proof -
    let ?due = "t2 + timedelta_days (standard_loan_days (fst (get_settings db1)))"
    let ?loan2 = "loan1\<lparr>status := ACTIVE, start_date := Some t2, due_date := Some ?due\<rparr>"
    let ?db2 = "store_loan ?loan2 (snd (get_settings db1))"
    have r2: "confirm_pickup t2 db1 (l_id loan1) = (Inr ?loan2, ?db2)"
      using f1 t2 by (intro confirm_pickup_ok) simp_all
    have l2: "get_loan ?db2 (l_id loan1) = Some ?loan2"
      using f1 by (simp add: get_loan_store_loan)
    have b2: "get_book ?db2 bid = Some (take_copy book0)"
      using f1 by simp
    have step3: "\<exists>loan3 db3 book3.
                 return_book t3 ?db2 (l_id loan1) = (Inr loan3, db3) \<and>
                 get_loan db3 (l_id loan1) = Some loan3 \<and>
                 status loan3 = RETURNED \<and> fine_amount loan3 = 0 \<and>
                 get_book db3 bid = Some book3 \<and>
                 available_copies book3 = available_copies book0"
      if t3: "t3 \<le> ?due" for t3
    proof -
      let ?loan3 = "?loan2\<lparr>status := RETURNED, returned_at := Some t3\<rparr>"
      let ?db3 = "release_copy_of (book_id ?loan2) (store_loan ?loan3 ?db2)"
      have r3: "return_book t3 ?db2 (l_id loan1) = (Inr ?loan3, ?db3)"
        using l2 t3 by (intro return_book_on_time) simp_all
      have l3: "get_loan ?db3 (l_id loan1) = Some ?loan3"
        using l2 by (simp add: get_loan_store_loan)
      have b3: "get_book ?db3 bid = Some (release_copy (take_copy book0))"
        using b2 f1 by (simp add: get_book_release)
      show ?thesis
        using r3 l3 b3 f1
        by (intro exI [of _ ?loan3] exI [of _ ?db3] exI [of _ "release_copy (take_copy book0)"])
           simp
    qed
    show ?thesis
      using r2 step3
      by (intro exI [of _ ?loan2] exI [of _ ?db2] exI [of _ ?due]) simp
  qed
  show ?thesis
    using r1 f1 step2 by (intro exI [of _ loan1] exI [of _ db1] exI [of _ ?d]) simp
qed

theorem reserve_pickup_return_on_time_witness:
  "\<exists>l1 d1 l2 d2 l3 d3 b3.
     reserve_book 0 db_one_book 1 1 = (Inr l1, d1) \<and>
     confirm_pickup (timedelta_days 1) d1 (l_id l1) = (Inr l2, d2) \<and>
     return_book (timedelta_days 10) d2 (l_id l1) = (Inr l3, d3) \<and>
     status l3 = RETURNED \<and> fine_amount l3 = 0 \<and>
     get_book d3 1 = Some b3 \<and> available_copies b3 = available_copies (book1 1 True)"
proof -
  have g: "get_book db_one_book 1 = Some (book1 1 True)" "0 < available_copies (book1 1 True)"
    "get_user db_one_book 1 = Some member1" "\<not> is_banned member1"
    "recent_cancel 0 db_one_book 1 1 = None"
    by (simp_all add: get_book_def get_user_def recent_cancel_def example_defs)
  from reserve_pickup_return_on_time [OF g] obtain l1 d1 d where
    r1: "reserve_book 0 db_one_book 1 1 = (Inr l1, d1)" and pd: "pickup_deadline l1 = Some d"
    and rest: "\<forall>t2. t2 \<le> d \<longrightarrow>
        (\<exists>loan2 db2 due.
           confirm_pickup t2 d1 (l_id l1) = (Inr loan2, db2) \<and> due_date loan2 = Some due \<and>
           (\<forall>t3. t3 \<le> due \<longrightarrow>
              (\<exists>loan3 db3 book3.
                 return_book t3 db2 (l_id l1) = (Inr loan3, db3) \<and>
                 get_loan db3 (l_id l1) = Some loan3 \<and>
                 status loan3 = RETURNED \<and> fine_amount loan3 = 0 \<and>
                 get_book db3 1 = Some book3 \<and>
                 available_copies book3 = available_copies (book1 1 True))))"
    by blast
  from r1 reserve_first_copy have l1: "l1 = loan1 RESERVED" and d1: "d1 = db_reserved"
    by simp_all
  from pd l1 have "d = timedelta_days 2"
    by (simp add: example_defs)
  then have "timedelta_days 1 \<le> d"
    by (simp add: timedelta_days_def us_per_day_def)
  with rest obtain l2 d2 due where
    r2: "confirm_pickup (timedelta_days 1) d1 (l_id l1) = (Inr l2, d2)"
    and dd: "due_date l2 = Some due"
    and rest2: "\<forall>t3. t3 \<le> due \<longrightarrow>
              (\<exists>loan3 db3 book3.
                 return_book t3 d2 (l_id l1) = (Inr loan3, db3) \<and>
                 get_loan db3 (l_id l1) = Some loan3 \<and>
                 status loan3 = RETURNED \<and> fine_amount loan3 = 0 \<and>
                 get_book db3 1 = Some book3 \<and>
                 available_copies book3 = available_copies (book1 1 True))"
    by blast
  have "confirm_pickup (timedelta_days 1) db_reserved 1 =
          (Inr ((loan1 ACTIVE)\<lparr>start_date := Some (timedelta_days 1),
                                due_date := Some (timedelta_days 31)\<rparr>),
           db_reserved\<lparr>loans := [(loan1 ACTIVE)\<lparr>start_date := Some (timedelta_days 1),
                                                 due_date := Some (timedelta_days 31)\<rparr>]\<rparr>)"
    by (simp add: run_defs example_defs)
  with r2 l1 d1 dd have "due = timedelta_days 31"
    by (auto simp: example_defs)
  then have "timedelta_days 10 \<le> due"
    by (simp add: timedelta_days_def us_per_day_def)
  with rest2 obtain l3 d3 b3 where
    "return_book (timedelta_days 10) d2 (l_id l1) = (Inr l3, d3)"
    "status l3 = RETURNED" "fine_amount l3 = 0" "get_book d3 1 = Some b3"
    "available_copies b3 = available_copies (book1 1 True)"
    by blast
  with r1 r2 show ?thesis by blast
qed

section \<open>The waiting day after a cancellation (C6)\<close>

text \<open>
  C6, as the service has it. The waiting rule is the last of the reservation's checks.
  When the book exists and has an available copy and the user exists and is not banned,
  a CANCELLED loan of this user for this book whose cancellation lies less than a day
  back makes the reservation fail with the 400 error ``You must wait 24 hours before
  reserving this book again'', and the reservation succeeds when every such
  cancellation lies a day or more back. Whatever the other checks say, a cancellation
  less than a day back makes the reservation fail and leaves the database as it was.
  Cancelling a RESERVED loan of one's own stores it as CANCELLED with \<open>canceled_at\<close> set
  to the time of the call and gives the copy back. The checks that come before the
  waiting rule answer with their own errors: a missing book (404), no copy left (400),
  a missing user (404), a banned user (403).
\<close>

theorem reserve_after_cancel:
  "(get_book db bid = Some book \<and> 0 < available_copies book \<and>
    get_user db uid = Some user \<and> \<not> is_banned user
    \<longrightarrow>
      ((\<exists>l c. l \<in> set (loans db) \<and> user_id l = uid \<and> book_id l = bid \<and>
              status l = CANCELLED \<and> canceled_at l = Some c \<and> now - timedelta_days 1 < c)
       \<longrightarrow> reserve_book now db uid bid =
             (Inl (HTTPException 400
                ''You must wait 24 hours before reserving this book again''), db)) \<and>
      ((\<forall>l c. l \<in> set (loans db) \<and> user_id l = uid \<and> book_id l = bid \<and>
              status l = CANCELLED \<and> canceled_at l = Some c \<longrightarrow> c \<le> now - timedelta_days 1)
       \<longrightarrow> (\<exists>loan db'. reserve_book now db uid bid = (Inr loan, db') \<and>
              status loan = RESERVED \<and> get_loan db' (l_id loan) = Some loan))) \<and>
   ((\<exists>l c. l \<in> set (loans db) \<and> user_id l = uid \<and> book_id l = bid \<and>
           status l = CANCELLED \<and> canceled_at l = Some c \<and> now - timedelta_days 1 < c)
    \<longrightarrow> (\<exists>e. reserve_book now db uid bid = (Inl e, db))) \<and>
   (get_loan db i = Some rloan \<and> user_id rloan = uid \<and> status rloan = RESERVED \<and>
    get_book db (book_id rloan) = Some rbook
    \<longrightarrow> (\<exists>db'. cancel_reservation t db uid i =
                  (Inr (rloan\<lparr>status := CANCELLED, canceled_at := Some t\<rparr>), db') \<and>
              get_loan db' i = Some (rloan\<lparr>status := CANCELLED, canceled_at := Some t\<rparr>) \<and>
              get_book db' (book_id rloan) =
                Some (rbook\<lparr>available_copies := available_copies rbook + 1,
                            is_available := available_copies rbook + 1 > 0\<rparr>))) \<and>
   (get_book db bid = None
    \<longrightarrow> reserve_book now db uid bid = (Inl (HTTPException 404 ''Book not found''), db)) \<and>
   (get_book db bid = Some book \<and> available_copies book \<le> 0
    \<longrightarrow> reserve_book now db uid bid =
          (Inl (HTTPException 400 ''Book is not available for reservation''), db)) \<and>
   (get_book db bid = Some book \<and> 0 < available_copies book \<and> get_user db uid = None
    \<longrightarrow> reserve_book now db uid bid = (Inl (HTTPException 404 ''User not found''), db)) \<and>
   (get_book db bid = Some book \<and> 0 < available_copies book \<and>
    get_user db uid = Some user \<and> is_banned user
    \<longrightarrow> reserve_book now db uid bid =
          (Inl (HTTPException 403 ''You are banned from reserving books''), db))"
proof (intro conjI impI)
  assume g: "get_book db bid = Some book \<and> 0 < available_copies book \<and>
    get_user db uid = Some user \<and> \<not> is_banned user"
  {
    assume "\<exists>l c. l \<in> set (loans db) \<and> user_id l = uid \<and> book_id l = bid \<and>
              status l = CANCELLED \<and> canceled_at l = Some c \<and> now - timedelta_days 1 < c"
    then have "recent_cancel now db uid bid \<noteq> None"
      using recent_cancel_Some by blast
    with g show "reserve_book now db uid bid =
             (Inl (HTTPException 400
                ''You must wait 24 hours before reserving this book again''), db)"
      by (intro reserve_book_wait) auto
  }
  {
    assume "\<forall>l c. l \<in> set (loans db) \<and> user_id l = uid \<and> book_id l = bid \<and>
              status l = CANCELLED \<and> canceled_at l = Some c \<longrightarrow> c \<le> now - timedelta_days 1"
    then have n: "recent_cancel now db uid bid = None"
      by (rule recent_cancel_None)
    from g n obtain loan db' where r: "reserve_book now db uid bid = (Inr loan, db')"
      using reserve_book_ok [of db bid book uid user now] by blast
    from g have "get_book db bid = Some book" by simp
    from get_book_reserved [OF r this] r
    show "\<exists>loan db'. reserve_book now db uid bid = (Inr loan, db') \<and>
              status loan = RESERVED \<and> get_loan db' (l_id loan) = Some loan"
      by blast
  }
next
  assume "\<exists>l c. l \<in> set (loans db) \<and> user_id l = uid \<and> book_id l = bid \<and>
              status l = CANCELLED \<and> canceled_at l = Some c \<and> now - timedelta_days 1 < c"
  then have "recent_cancel now db uid bid \<noteq> None"
    using recent_cancel_Some by blast
  then show "\<exists>e. reserve_book now db uid bid = (Inl e, db)"
    by (rule reserve_book_blocked)
next
  assume c: "get_loan db i = Some rloan \<and> user_id rloan = uid \<and> status rloan = RESERVED \<and>
    get_book db (book_id rloan) = Some rbook"
  let ?loan' = "rloan\<lparr>status := CANCELLED, canceled_at := Some t\<rparr>"
  let ?db' = "release_copy_of (book_id rloan) (store_loan ?loan' db)"
  have run: "cancel_reservation t db uid i = (Inr ?loan', ?db')"
    using c by (intro cancel_reservation_ok) auto
  from c have c1: "get_loan db i = Some rloan" by simp
  have ln: "get_loan ?db' i = Some ?loan'"
    using get_loan_store_loan [OF c1, of ?loan'] get_loan_id [OF c1] by simp
  have "get_book ?db' (book_id rloan) = Some (release_copy rbook)"
    using c by (simp add: get_book_release)
  then have bk: "get_book ?db' (book_id rloan) =
                Some (rbook\<lparr>available_copies := available_copies rbook + 1,
                            is_available := available_copies rbook + 1 > 0\<rparr>)"
    by (simp add: release_copy_def Let_def)
  show "\<exists>db'. cancel_reservation t db uid i =
                  (Inr (rloan\<lparr>status := CANCELLED, canceled_at := Some t\<rparr>), db') \<and>
              get_loan db' i = Some (rloan\<lparr>status := CANCELLED, canceled_at := Some t\<rparr>) \<and>
              get_book db' (book_id rloan) =
                Some (rbook\<lparr>available_copies := available_copies rbook + 1,
                            is_available := available_copies rbook + 1 > 0\<rparr>)"
    using run ln bk by blast
next
  assume "get_book db bid = None"
  then show "reserve_book now db uid bid = (Inl (HTTPException 404 ''Book not found''), db)"
    by (simp add: reserve_book_def)
next
  assume "get_book db bid = Some book \<and> available_copies book \<le> 0"
  then show "reserve_book now db uid bid =
          (Inl (HTTPException 400 ''Book is not available for reservation''), db)"
    by (simp add: reserve_book_def)
next
  assume "get_book db bid = Some book \<and> 0 < available_copies book \<and> get_user db uid = None"
  then show "reserve_book now db uid bid = (Inl (HTTPException 404 ''User not found''), db)"
    by (simp add: reserve_book_def)
next
  assume "get_book db bid = Some book \<and> 0 < available_copies book \<and>
    get_user db uid = Some user \<and> is_banned user"
  then show "reserve_book now db uid bid =
          (Inl (HTTPException 403 ''You are banned from reserving books''), db)"
    by (simp add: reserve_book_def)
qed

theorem reserve_after_cancel_witness:
  "reserve_book (timedelta_days 5 + 3600000000) db_cancelled 1 1 =
     (Inl (HTTPException 400 ''You must wait 24 hours before reserving this book again''),
      db_cancelled) \<and>
   (\<exists>loan db'. reserve_book (timedelta_days 6) db_cancelled 1 1 = (Inr loan, db') \<and>
      status loan = RESERVED \<and> get_loan db' (l_id loan) = Some loan) \<and>
   (\<exists>db'. cancel_reservation (timedelta_days 1) db_reserved 1 1 =
            (Inr ((loan1 CANCELLED)\<lparr>canceled_at := Some (timedelta_days 1)\<rparr>), db') \<and>
          get_book db' 1 = Some (book1 1 True)) \<and>
   reserve_book 0 db_start 1 1 = (Inl (HTTPException 404 ''Book not found''), db_start) \<and>
   reserve_book 0 db_cancelled_none_left 1 1 =
     (Inl (HTTPException 400 ''Book is not available for reservation''),
      db_cancelled_none_left) \<and>
   reserve_book 0 db_cancelled 3 1 = (Inl (HTTPException 404 ''User not found''), db_cancelled) \<and>
   reserve_book 0 db_cancelled_banned 1 1 =
     (Inl (HTTPException 403 ''You are banned from reserving books''), db_cancelled_banned)"
proof -
  let ?old = "(loan1 CANCELLED)\<lparr>canceled_at := Some (timedelta_days 5)\<rparr>"
  have n1: "get_book db_start 1 = None"
    and n2: "get_book db_cancelled_none_left 1 = Some (book1 0 False) \<and>
             available_copies (book1 0 False) \<le> 0"
    and n3: "get_book db_cancelled 1 = Some (book1 1 True) \<and>
             0 < available_copies (book1 1 True) \<and> get_user db_cancelled 3 = None"
    and n4: "get_book db_cancelled_banned 1 = Some (book1 1 True) \<and>
             0 < available_copies (book1 1 True) \<and>
             get_user db_cancelled_banned 1 = Some (member1\<lparr>is_banned := True\<rparr>) \<and>
             is_banned (member1\<lparr>is_banned := True\<rparr>)"
    by (simp_all add: get_book_def get_user_def example_defs)
  have g1: "reserve_book 0 db_start 1 1 = (Inl (HTTPException 404 ''Book not found''), db_start)"
    using reserve_after_cancel [where db = db_start and bid = 1 and uid = 1 and now = 0] n1
    by blast
  have g2: "reserve_book 0 db_cancelled_none_left 1 1 =
     (Inl (HTTPException 400 ''Book is not available for reservation''),
      db_cancelled_none_left)"
    using reserve_after_cancel [where db = db_cancelled_none_left and bid = 1 and uid = 1
        and now = 0 and book = "book1 0 False"] n2
    by blast
  have g3: "reserve_book 0 db_cancelled 3 1 =
     (Inl (HTTPException 404 ''User not found''), db_cancelled)"
    using reserve_after_cancel [where db = db_cancelled and bid = 1 and uid = 3
        and now = 0 and book = "book1 1 True"] n3
    by blast
  have g4: "reserve_book 0 db_cancelled_banned 1 1 =
     (Inl (HTTPException 403 ''You are banned from reserving books''), db_cancelled_banned)"
    using reserve_after_cancel [where db = db_cancelled_banned and bid = 1 and uid = 1
        and now = 0 and book = "book1 1 True" and user = "member1\<lparr>is_banned := True\<rparr>"] n4
    by blast
  have g: "get_book db_cancelled 1 = Some (book1 1 True) \<and> 0 < available_copies (book1 1 True) \<and>
           get_user db_cancelled 1 = Some member1 \<and> \<not> is_banned member1"
    by (simp add: get_book_def get_user_def example_defs)
  have old: "?old \<in> set (loans db_cancelled) \<and> user_id ?old = 1 \<and> book_id ?old = 1 \<and>
             status ?old = CANCELLED \<and> canceled_at ?old = Some (timedelta_days 5)"
    by (simp add: example_defs)
  have early: "timedelta_days 5 + 3600000000 - timedelta_days 1 < timedelta_days 5"
    by (simp add: timedelta_days_def us_per_day_def)
  have late: "\<forall>l c. l \<in> set (loans db_cancelled) \<and> user_id l = 1 \<and> book_id l = 1 \<and>
              status l = CANCELLED \<and> canceled_at l = Some c
              \<longrightarrow> c \<le> timedelta_days 6 - timedelta_days 1"
    by (simp add: timedelta_days_def us_per_day_def example_defs)
  have c: "get_loan db_reserved 1 = Some (loan1 RESERVED) \<and> user_id (loan1 RESERVED) = 1 \<and>
           status (loan1 RESERVED) = RESERVED \<and>
           get_book db_reserved (book_id (loan1 RESERVED)) = Some (book1 0 False)"
    by (simp add: get_loan_def get_book_def example_defs)
  have e: "(loan1 RESERVED)\<lparr>status := CANCELLED, canceled_at := Some (timedelta_days 1)\<rparr> =
             (loan1 CANCELLED)\<lparr>canceled_at := Some (timedelta_days 1)\<rparr>"
    "(book1 0 False)\<lparr>available_copies := available_copies (book1 0 False) + 1,
                     is_available := available_copies (book1 0 False) + 1 > 0\<rparr> = book1 1 True"
    "book_id (loan1 RESERVED) = 1"
    by (simp_all add: example_defs)
  have a: "reserve_book (timedelta_days 5 + 3600000000) db_cancelled 1 1 =
     (Inl (HTTPException 400 ''You must wait 24 hours before reserving this book again''),
      db_cancelled)"
    using reserve_after_cancel [where db = db_cancelled and bid = 1 and uid = 1
        and book = "book1 1 True" and user = member1
        and now = "timedelta_days 5 + 3600000000"] g old early
    by blast
  have b: "\<exists>loan db'. reserve_book (timedelta_days 6) db_cancelled 1 1 = (Inr loan, db') \<and>
      status loan = RESERVED \<and> get_loan db' (l_id loan) = Some loan"
    using reserve_after_cancel [where db = db_cancelled and bid = 1 and uid = 1
        and book = "book1 1 True" and user = member1 and now = "timedelta_days 6"] g late
    by blast
  have "\<exists>db'. cancel_reservation (timedelta_days 1) db_reserved 1 1 =
            (Inr ((loan1 RESERVED)\<lparr>status := CANCELLED,
                                    canceled_at := Some (timedelta_days 1)\<rparr>), db') \<and>
          get_loan db' 1 = Some ((loan1 RESERVED)\<lparr>status := CANCELLED,
                                    canceled_at := Some (timedelta_days 1)\<rparr>) \<and>
          get_book db' (book_id (loan1 RESERVED)) =
            Some ((book1 0 False)\<lparr>available_copies := available_copies (book1 0 False) + 1,
                     is_available := available_copies (book1 0 False) + 1 > 0\<rparr>)"
    using reserve_after_cancel [where db = db_reserved and uid = 1 and i = 1
        and rloan = "loan1 RESERVED" and rbook = "book1 0 False" and t = "timedelta_days 1"] c
    by blast
  then have c': "\<exists>db'. cancel_reservation (timedelta_days 1) db_reserved 1 1 =
            (Inr ((loan1 CANCELLED)\<lparr>canceled_at := Some (timedelta_days 1)\<rparr>), db') \<and>
          get_book db' 1 = Some (book1 1 True)"
    unfolding e by blast
  show ?thesis using a b c' g1 g2 g3 g4 by blast
qed

text \<open>
  The claim as worded promises the invalid-state error for every user and book with a
  cancellation in the last day. The checks that come first answer first: with the same
  cancellation an hour back, a banned user gets the 403 error of the ban, and a book
  with no copy left gets the error of the unavailable book.
\<close>

theorem reserve_after_cancel_guard_order:
  "loans db_cancelled_banned = [(loan1 CANCELLED)\<lparr>canceled_at := Some (timedelta_days 5)\<rparr>] \<and>
   loans db_cancelled_none_left = [(loan1 CANCELLED)\<lparr>canceled_at := Some (timedelta_days 5)\<rparr>] \<and>
   timedelta_days 5 + 3600000000 - timedelta_days 1 < timedelta_days 5 \<and>
   reserve_book (timedelta_days 5 + 3600000000) db_cancelled_banned 1 1 =
     (Inl (HTTPException 403 ''You are banned from reserving books''), db_cancelled_banned) \<and>
   reserve_book (timedelta_days 5 + 3600000000) db_cancelled_none_left 1 1 =
     (Inl (HTTPException 400 ''Book is not available for reservation''),
      db_cancelled_none_left)"
  by (simp add: run_defs example_defs)

section \<open>The availability flag (C7)\<close>

text \<open>
  C7. The claim: \<open>is_available\<close> equals \<open>available_copies > 0\<close> in every reachable
  state, recomputed on every change of the counts, creation and update included. Every
  loan transition recomputes the flag (\<open>take_copy\<close>, \<open>release_copy\<close>); creating and
  updating a book do not touch it. A book created with no available copy is stored
  with the flag's column default, true; an update that sets the count to 0 leaves the
  flag true.
\<close>

theorem is_available_not_recomputed:
  "BookCreate_valid (test_book\<lparr>c_available_copies := Some 0\<rparr>) \<and>
   create_book db_start (test_book\<lparr>c_available_copies := Some 0\<rparr>) =
     (Inr (book1 0 True), db_start\<lparr>books := [book1 0 True]\<rparr>) \<and>
   BookUpdate_valid hold_all \<and>
   update_book db_one_book 1 hold_all =
     (Inr (book1 0 True), db_one_book\<lparr>books := [book1 0 True]\<rparr>) \<and>
   available_copies (book1 0 True) = 0 \<and> is_available (book1 0 True)"
  by (simp add: run_defs example_defs BookCreate_valid_def BookUpdate_valid_def
        len_between_def int_between_def)

section \<open>Operations on a loan in the wrong state (C8)\<close>

text \<open>
  C8, as the service has it. A pickup of a loan that is not RESERVED, a return of a
  loan that is neither ACTIVE nor OVERDUE, and a cancellation by its owner of a loan
  that is not RESERVED each fail with a 400 error and leave the database as it was.
  The message is fixed per operation and names the status the operation needs. A
  cancellation by a user who does not own the loan fails with the 403 error of the
  ownership check, whatever the loan's status.
\<close>

theorem invalid_state_rejected:
  "(get_loan db i = Some loan \<and> status loan \<noteq> RESERVED
      \<longrightarrow> confirm_pickup now db i =
            (Inl (HTTPException 400 ''Only reserved loans can be picked up''), db)) \<and>
   (get_loan db i = Some loan \<and> status loan \<noteq> ACTIVE \<and> status loan \<noteq> OVERDUE
      \<longrightarrow> return_book now db i =
            (Inl (HTTPException 400 ''Only active loans can be returned''), db)) \<and>
   (get_loan db i = Some loan \<and> user_id loan = uid \<and> status loan \<noteq> RESERVED
      \<longrightarrow> cancel_reservation now db uid i =
            (Inl (HTTPException 400 ''Only reserved loans can be cancelled''), db)) \<and>
   (get_loan db i = Some loan \<and> user_id loan \<noteq> other
      \<longrightarrow> cancel_reservation now db other i =
            (Inl (HTTPException 403 ''You can only cancel your own reservations''), db))"
  by (simp add: confirm_pickup_def return_book_def cancel_reservation_def)

theorem invalid_state_rejected_witness:
  "confirm_pickup (timedelta_days 1) db_active 1 =
     (Inl (HTTPException 400 ''Only reserved loans can be picked up''), db_active) \<and>
   return_book (timedelta_days 1) db_reserved 1 =
     (Inl (HTTPException 400 ''Only active loans can be returned''), db_reserved) \<and>
   cancel_reservation (timedelta_days 1) db_active 1 1 =
     (Inl (HTTPException 400 ''Only reserved loans can be cancelled''), db_active) \<and>
   cancel_reservation (timedelta_days 1) db_active 2 1 =
     (Inl (HTTPException 403 ''You can only cancel your own reservations''), db_active)"
proof -
  let ?active = "(loan1 ACTIVE)\<lparr>start_date := Some 0, due_date := Some (timedelta_days 30)\<rparr>"
  have a: "get_loan db_active 1 = Some ?active \<and> status ?active \<noteq> RESERVED"
    "get_loan db_active 1 = Some ?active \<and> user_id ?active = 1 \<and> status ?active \<noteq> RESERVED"
    "get_loan db_active 1 = Some ?active \<and> user_id ?active \<noteq> 2"
    by (simp_all add: get_loan_def example_defs)
  have r: "get_loan db_reserved 1 = Some (loan1 RESERVED) \<and> status (loan1 RESERVED) \<noteq> ACTIVE \<and>
           status (loan1 RESERVED) \<noteq> OVERDUE"
    by (simp add: get_loan_def example_defs)
  show ?thesis
    using invalid_state_rejected [of db_active 1 ?active "timedelta_days 1" 1 2] a
      invalid_state_rejected [of db_reserved 1 "loan1 RESERVED" "timedelta_days 1" 1 2] r
    by blast
qed

text \<open>
  The claim as worded has the error name the loan's current status. The pickup of an
  ACTIVE loan answers ``Only reserved loans can be picked up'', in which the value
  \<open>active\<close> does not occur; and a cancellation by another user is refused for the
  ownership, with a 403, before the status is looked at.
\<close>

theorem invalid_state_message_fixed:
  "map status (loans db_active) = [ACTIVE] \<and>
   confirm_pickup (timedelta_days 1) db_active 1 =
     (Inl (HTTPException 400 ''Only reserved loans can be picked up''), db_active) \<and>
   \<not> names_status ''Only reserved loans can be picked up'' ACTIVE \<and>
   cancel_reservation (timedelta_days 1) db_active 2 1 =
     (Inl (HTTPException 403 ''You can only cancel your own reservations''), db_active)"
proof -
  have "\<not> names_status ''Only reserved loans can be picked up'' ACTIVE"
    unfolding names_status_def by code_simp
  then show ?thesis
    by (simp add: run_defs example_defs)
qed

section \<open>The overdue sweep (C9)\<close>

text \<open>
  C9. For a fixed time the sweep is idempotent: run on its own output, in the database
  it left, it returns the same loans and the same database. Its output is the sweep
  rule applied to every loan, at the rate the settings provider hands out: an ACTIVE or
  OVERDUE loan past its due date becomes OVERDUE with the fine of \<open>max 1\<close> of the late
  days; a loan that does not qualify is returned as it is.
\<close>

theorem mark_overdue_idempotent:
  assumes "mark_overdue now ls None db = (ls1, s1, db1)"
    and "mark_overdue now ls1 None db1 = (ls2, s2, db2)"
  shows "ls2 = ls1 \<and> db2 = db1 \<and>
         ls1 = map (swept now (daily_fine_amount (fst (get_settings db)))) ls \<and>
         (\<forall>loan \<in> set ls. \<not> sweep_qualifies now loan \<longrightarrow> swept now (daily_fine_amount (fst (get_settings db))) loan = loan)"
proof -
  let ?rate = "daily_fine_amount (fst (get_settings db))"
  from assms(1) have l1: "ls1 = map (swept now ?rate) ls"
    and d1: "db1 = (if list_ex (sweep_qualifies now) ls then snd (get_settings db) else db)"
    by (simp_all add: mark_overdue_fresh)
  have rate1: "list_ex (sweep_qualifies now) ls \<Longrightarrow>
                 daily_fine_amount (fst (get_settings db1)) = ?rate"
    by (simp add: d1 get_settings_fst_idem)
  have "map (swept now (daily_fine_amount (fst (get_settings db1)))) ls1 = ls1"
  proof (cases "list_ex (sweep_qualifies now) ls")
    case True
    then show ?thesis by (simp add: rate1 l1)
  next
    case False
    then have "\<forall>l\<in>set ls. \<not> sweep_qualifies now l" by (simp add: list_ex_iff)
    then show ?thesis
      by (simp add: l1 swept_unqualified map_idI)
  qed
  with assms(2) have l2: "ls2 = ls1"
    by (simp add: mark_overdue_fresh)
  from assms(2) have "db2 = db1"
    by (auto simp: mark_overdue_fresh l1 d1 get_settings_fst_idem split: if_splits)
  with l1 l2 show ?thesis by (simp add: swept_unqualified)
qed

theorem mark_overdue_idempotent_witness:
  "fst (mark_overdue (timedelta_days 33) (loans db_active) None db_active) = loans db_overdue \<and>
   fst (mark_overdue (timedelta_days 33) (loans db_overdue) None db_active) = loans db_overdue"
proof -
  let ?s = "\<lparr>pickup_window_days = 2, standard_loan_days = 30, daily_fine_amount = 3 / 4\<rparr>"
  have r1: "mark_overdue (timedelta_days 33) (loans db_active) None db_active =
              (loans db_overdue, Some ?s, db_active)"
    by (simp add: run_defs example_defs)
  have r2: "mark_overdue (timedelta_days 33) (loans db_overdue) None db_active =
              (loans db_overdue, Some ?s, db_active)"
    by (simp add: run_defs example_defs)
  from mark_overdue_idempotent [OF r1 r2] r1 r2 show ?thesis by simp
qed

section \<open>A daily rate of 0 or 1/2 (C10)\<close>

text \<open>
  C10, as the service has it. The settings provider replaces a stored daily rate of
  exactly 0 or 1/2 by 1/10 and stores the replacement. An update to the rate 0 (or
  1/2) passes the bounds check whenever the two day counts do, and is stored; the
  repricing pass of that same update call prices the overdue loans at the new rate;
  the next read of the settings hands out 1/10 and stores it, so every later return
  and every later sweep computes its fines at 1/10.
\<close>

theorem zero_rate_not_kept:
  assumes "s_daily_fine_amount u = 0 \<or> s_daily_fine_amount u = 1 / 2"
    and "update_settings now db u = (settings, db')"
  shows "(SettingsUpdate_valid u \<longleftrightarrow>
            1 \<le> s_pickup_window_days u \<and> s_pickup_window_days u \<le> 14 \<and>
            1 \<le> s_standard_loan_days u \<and> s_standard_loan_days u \<le> 120) \<and>
     daily_fine_amount settings = s_daily_fine_amount u \<and>
     (\<exists>row. system_settings db' = Some row \<and>
            daily_fine_amount_col row = Some (s_daily_fine_amount u)) \<and>
     loans db' = map (swept now (s_daily_fine_amount u)) (loans db) \<and>
     daily_fine_amount (fst (get_settings db')) = 1 / 10 \<and>
     (\<exists>row. system_settings (snd (get_settings db')) = Some row \<and>
            daily_fine_amount_col row = Some (1 / 10)) \<and>
     (\<forall>t i loan due.
        get_loan db' i = Some loan \<and> (status loan = ACTIVE \<or> status loan = OVERDUE) \<and>
        due_date loan = Some due \<and> due < t
        \<longrightarrow> (\<exists>loan' db''. return_book t db' i = (Inr loan', db'') \<and>
               fine_amount loan' = of_int (days_late t due) * (1 / 10))) \<and>
     (\<forall>t ls. fst (mark_overdue t ls None db') = map (swept t (1 / 10)) ls)"
proof -
  from assms(2) have s: "daily_fine_amount settings = s_daily_fine_amount u"
    and l: "loans db' = map (swept now (s_daily_fine_amount u)) (loans db)"
    and st: "system_settings db' =
     Some \<lparr>pickup_window_days_col = Some (s_pickup_window_days u),
           standard_loan_days_col = Some (s_standard_loan_days u),
           daily_fine_amount_col = Some (s_daily_fine_amount u)\<rparr>"
    by (auto simp: update_settings_eq)
  have v: "SettingsUpdate_valid u \<longleftrightarrow>
            1 \<le> s_pickup_window_days u \<and> s_pickup_window_days u \<le> 14 \<and>
            1 \<le> s_standard_loan_days u \<and> s_standard_loan_days u \<le> 120"
    using assms(1) by (auto simp: SettingsUpdate_valid_def)
  have c: "daily_fine_amount (fst (get_settings db')) = 1 / 10"
    "\<exists>row. system_settings (snd (get_settings db')) = Some row \<and>
            daily_fine_amount_col row = Some (1 / 10)"
    using get_settings_coerced [OF st] assms(1) by auto
  have e: "\<exists>row. system_settings db' = Some row \<and>
            daily_fine_amount_col row = Some (s_daily_fine_amount u)"
    using st by simp
  have r: "\<forall>t i loan due.
        get_loan db' i = Some loan \<and> (status loan = ACTIVE \<or> status loan = OVERDUE) \<and>
        due_date loan = Some due \<and> due < t
        \<longrightarrow> (\<exists>loan' db''. return_book t db' i = (Inr loan', db'') \<and>
               fine_amount loan' = of_int (days_late t due) * (1 / 10))"
  proof (intro allI impI)
    fix t i loan due
    assume a: "get_loan db' i = Some loan \<and> (status loan = ACTIVE \<or> status loan = OVERDUE) \<and>
        due_date loan = Some due \<and> due < t"
    then have "get_loan db' i = Some loan" "status loan = ACTIVE \<or> status loan = OVERDUE"
      "due_date loan = Some due" "due < t"
      by simp_all
    from return_book_late [OF this] c(1)
    show "\<exists>loan' db''. return_book t db' i = (Inr loan', db'') \<and>
               fine_amount loan' = of_int (days_late t due) * (1 / 10)"
      by simp
  qed
  have m: "\<forall>t ls. fst (mark_overdue t ls None db') = map (swept t (1 / 10)) ls"
    by (simp add: mark_overdue_fresh c(1))
  show ?thesis
    using v s e l c r m by (intro conjI)
qed

theorem zero_rate_not_kept_witness:
  "SettingsUpdate_valid free_of_charge \<and>
   daily_fine_amount (fst (update_settings (timedelta_days 33) db_active free_of_charge)) = 0 \<and>
   daily_fine_amount
     (fst (get_settings (snd (update_settings (timedelta_days 33) db_active free_of_charge))))
     = 1 / 10"
proof -
  have z: "s_daily_fine_amount free_of_charge = 0 \<or> s_daily_fine_amount free_of_charge = 1 / 2"
    by (simp add: example_defs)
  have run: "update_settings (timedelta_days 33) db_active free_of_charge =
               (fst (update_settings (timedelta_days 33) db_active free_of_charge),
                snd (update_settings (timedelta_days 33) db_active free_of_charge))"
    by simp
  have b: "1 \<le> s_pickup_window_days free_of_charge \<and> s_pickup_window_days free_of_charge \<le> 14 \<and>
           1 \<le> s_standard_loan_days free_of_charge \<and> s_standard_loan_days free_of_charge \<le> 120"
    "s_daily_fine_amount free_of_charge = 0"
    by (simp_all add: example_defs)
  from zero_rate_not_kept [OF z run] b show ?thesis by simp
qed

text \<open>
  The claim as worded has the rate 0 never used for a fine. The update call itself uses
  it: a loan three days overdue, fined 9/4 at the old rate, is repriced to 0 by the
  update to the rate 0.
\<close>

theorem zero_rate_used_by_repricing:
  "SettingsUpdate_valid free_of_charge \<and>
   s_daily_fine_amount free_of_charge = 0 \<and>
   map fine_amount (loans db_overdue) = [9 / 4] \<and>
   days_late (timedelta_days 33) (timedelta_days 30) = 3 \<and>
   map fine_amount
     (loans (snd (update_settings (timedelta_days 33) db_overdue free_of_charge))) = [0]"
  by (simp add: run_defs example_defs SettingsUpdate_valid_def)

end
